theory Spec2Isabelle
  imports
    Complex_Main
    "HOL-Library.Word"
    "HOL-Library.Char_ord"
    "HOL-Library.List_Lexorder"
    "HOL-Library.Multiset"
begin

section \<open>Value model\<close>

text \<open>
  Go strings are byte sequences, and so is \<^typ>\<open>string\<close>.  The values of package
  \<open>types\<close> are a tagged union; a document is an ordered list of key/value pairs.
  A \<open>float64\<close> is only ever built from the literal \<open>float64(1)\<close> in the code below.
\<close>

datatype val =
    VDouble real
  | VString string
  | VDocument "(string \<times> val) list"
  | VArray "val list"
  | VBinary string
  | VObjectID string
  | VBool bool
  | VDateTime int
  | VNull
  | VInt32 "32 word"
  | VInt64 "64 word"

type_synonym document = "(string \<times> val) list"

text \<open>
  A Go call either returns or panics (\<open>must.NotFail\<close>, \<open>must.NoError\<close>).
\<close>

datatype 'a outcome = Panic | Return 'a

text \<open>
  Modelled from the spec: the operations of \<open>types.Document\<close> (the package is not part of
  the sources at hand).  Section 4.1: get by key fails when the key is absent; set by key
  replaces in place or appends; keys are iterated in insertion order.
\<close>

definition doc_Get :: "document \<Rightarrow> string \<Rightarrow> val option" where
  "doc_Get d k = map_of d k"

text \<open>Modelled from the spec: \<open>Has\<close>, whether the key is present.\<close>

definition doc_Has :: "document \<Rightarrow> string \<Rightarrow> bool" where
  "doc_Has d k = (k \<in> set (map fst d))"

text \<open>Modelled from the spec: \<open>Keys\<close>, the keys in insertion order.\<close>

definition doc_Keys :: "document \<Rightarrow> string list" where
  "doc_Keys d = map fst d"

text \<open>Modelled from the spec: \<open>Set\<close> replaces the value in place, or appends the pair.\<close>

definition doc_Set :: "document \<Rightarrow> string \<Rightarrow> val \<Rightarrow> document" where
  "doc_Set d k v =
     (if doc_Has d k then map (\<lambda>(k', v'). if k' = k then (k', v) else (k', v')) d
      else d @ [(k, v)])"

text \<open>Modelled from the spec: the command's primary field is the first key.\<close>

definition doc_Command :: "document \<Rightarrow> string" where
  "doc_Command d = (case d of [] \<Rightarrow> [] | (k, _) # _ \<Rightarrow> k)"

section \<open>Regular expressions of the name validators\<close>

text \<open>
  Both validators are a sequence of bracket expressions, each with a repetition count,
  between \<open>^\<close> and \<open>$\<close>.  Without the \<open>m\<close> flag Go's \<open>$\<close> matches at the end of the text
  only, so \<open>MatchString\<close> asks for a match of the whole string.
\<close>

datatype cclass = CRange char char | CChar char

datatype atom = Atom "cclass list" nat nat

type_synonym regex = "atom list"

fun in_cclass :: "cclass \<Rightarrow> char \<Rightarrow> bool" where
  "in_cclass (CRange lo hi) c = (lo \<le> c \<and> c \<le> hi)"
| "in_cclass (CChar x) c = (c = x)"

definition in_bracket :: "cclass list \<Rightarrow> char \<Rightarrow> bool" where
  "in_bracket cs c = list_ex (\<lambda>k. in_cclass k c) cs"

text \<open>
  \<open>match_rep cs m n s\<close>: the suffixes of \<open>s\<close> left after consuming at least \<open>m\<close> and at most
  \<open>n\<close> characters of the bracket expression \<open>cs\<close>.
\<close>

fun match_rep :: "cclass list \<Rightarrow> nat \<Rightarrow> nat \<Rightarrow> string \<Rightarrow> string list" where
  "match_rep cs m 0 s = (if m = 0 then [s] else [])"
| "match_rep cs m (Suc n) s =
     (if m = 0 then [s] else []) @
     (case s of
        [] \<Rightarrow> []
      | c # t \<Rightarrow> if in_bracket cs c then match_rep cs (m - 1) n t else [])"

fun match_atom :: "atom \<Rightarrow> string \<Rightarrow> string list" where
  "match_atom (Atom cs m n) s = match_rep cs m n s"

fun match_seq :: "regex \<Rightarrow> string \<Rightarrow> string list" where
  "match_seq [] s = [s]"
| "match_seq (a # r) s = concat (map (match_seq r) (match_atom a s))"

definition MatchString :: "regex \<Rightarrow> string \<Rightarrow> bool" where
  "MatchString r s = ([] \<in> set (match_seq r s))"

text \<open>\<open>^[a-zA-Z_][a-zA-Z0-9_]{0,119}$\<close>\<close>

definition validateCollectionNameRe :: regex where
  "validateCollectionNameRe =
     [Atom [CRange CHR ''a'' CHR ''z'', CRange CHR ''A'' CHR ''Z'', CChar CHR ''_''] 1 1,
      Atom [CRange CHR ''a'' CHR ''z'', CRange CHR ''A'' CHR ''Z'',
            CRange CHR ''0'' CHR ''9'', CChar CHR ''_''] 0 119]"

text \<open>\<open>^[a-z_][a-z0-9_]{0,62}$\<close>\<close>

definition validateDatabaseNameRe :: regex where
  "validateDatabaseNameRe =
     [Atom [CRange CHR ''a'' CHR ''z'', CChar CHR ''_''] 1 1,
      Atom [CRange CHR ''a'' CHR ''z'', CRange CHR ''0'' CHR ''9'', CChar CHR ''_''] 0 62]"

text \<open>
  The two bracket expressions of the collection-name validator, written out: a letter or
  an underscore first, then letters, digits and underscores.
\<close>

definition is_name_start :: "char \<Rightarrow> bool" where
  "is_name_start c =
     ((CHR ''a'' \<le> c \<and> c \<le> CHR ''z'') \<or> (CHR ''A'' \<le> c \<and> c \<le> CHR ''Z'') \<or> c = CHR ''_'')"

definition is_name_char :: "char \<Rightarrow> bool" where
  "is_name_char c =
     ((CHR ''a'' \<le> c \<and> c \<le> CHR ''z'') \<or> (CHR ''A'' \<le> c \<and> c \<le> CHR ''Z'') \<or>
      (CHR ''0'' \<le> c \<and> c \<le> CHR ''9'') \<or> c = CHR ''_'')"

text \<open>\<open>strings.HasPrefix(s, prefix)\<close>\<close>

definition HasPrefix :: "string \<Rightarrow> string \<Rightarrow> bool" where
  "HasPrefix s p = (take (length p) s = p)"

section \<open>Package pgdb: collections\<close>

text \<open>
  What the PostgreSQL driver reports: a \<open>*pgconn.PgError\<close> with its SQLSTATE code, or any
  other failure.
\<close>

datatype failure = PgError string | OtherFailure string

text \<open>
  The errors of package pgdb: its sentinel errors, a failure of the backend handed on as
  it is, and the wrappers of \<open>lazyerrors\<close>.  The helpers \<open>schemaExists\<close>, \<open>tables\<close>,
  \<open>getSettingsTable\<close> and \<open>updateSettingsTable\<close> are queries against the backend; their
  failures are taken to be backend failures, never one of the sentinels.
\<close>

datatype error =
    ErrInvalidTableName
  | ErrSchemaNotExist
  | ErrAlreadyExist
  | ErrTableNotExist
  | Backend failure
  | LazyError error
  | LazyErrorf string

text \<open>\<open>errors.Is\<close>: looks through the wrappers.\<close>

fun errors_Is :: "error \<Rightarrow> error \<Rightarrow> bool" where
  "errors_Is (LazyError e) t = (LazyError e = t \<or> errors_Is e t)"
| "errors_Is e t = (e = t)"

text \<open>The SQLSTATE codes of package \<open>pgerrcode\<close> named in \<open>CreateCollection\<close>.\<close>

definition UniqueViolation :: string where "UniqueViolation = ''23505''"
definition DuplicateObject :: string where "DuplicateObject = ''42710''"
definition DuplicateTable :: string where "DuplicateTable = ''42P07''"

text \<open>
  The parts of the package that the sources at hand call but do not contain are taken as
  parameters, over a state \<open>'q\<close> of the backend seen through the querier: the reserved
  prefix, the encoding of a collection name as a table name, the queries, the write of the
  settings document, \<open>pgx.Identifier.Sanitize\<close> and \<open>querier.Exec\<close>.
\<close>

record 'q pgdb_env =
  reservedPrefix :: string
  formatCollectionName :: "string \<Rightarrow> string"
  Sanitize :: "string list \<Rightarrow> string"
  schemaExists :: "string \<Rightarrow> 'q \<Rightarrow> failure + bool"
  tables :: "string \<Rightarrow> 'q \<Rightarrow> failure + string list"
  getSettingsTable :: "string \<Rightarrow> 'q \<Rightarrow> failure + document"
  updateSettingsTable :: "string \<Rightarrow> document \<Rightarrow> 'q \<Rightarrow> failure option \<times> 'q"
  Exec :: "string \<Rightarrow> 'q \<Rightarrow> failure option \<times> 'q"

text \<open>
  \<open>Collections\<close> returns the sorted list of collection names.  \<open>slices.Sort\<close> orders Go
  strings by \<open><\<close>, the lexicographic order of their bytes (for UTF-8 text, the order of
  the code points).
\<close>

definition Collections :: "'q pgdb_env \<Rightarrow> string \<Rightarrow> 'q \<Rightarrow> (error + string list) outcome" where
  "Collections E db q =
     (case schemaExists E db q of
        Inl err \<Rightarrow> Return (Inl (LazyError (Backend err)))
      | Inr ex \<Rightarrow>
          if \<not> ex then Return (Inl ErrSchemaNotExist)
          else
            (case getSettingsTable E db q of
               Inl err \<Rightarrow> Return (Inl (LazyError (Backend err)))
             | Inr settings \<Rightarrow>
                 (case doc_Get settings ''collections'' of
                    None \<Rightarrow> Panic
                  | Some collectionsDoc \<Rightarrow>
                      (case collectionsDoc of
                         VDocument collections \<Rightarrow> Return (Inr (sort (doc_Keys collections)))
                       | _ \<Rightarrow> Return (Inl (LazyErrorf ''invalid settings document''))))))"

text \<open>\<open>CollectionExists\<close>: false, not an error, when the schema is absent.\<close>

definition CollectionExists ::
  "'q pgdb_env \<Rightarrow> string \<Rightarrow> string \<Rightarrow> 'q \<Rightarrow> (error + bool) outcome" where
  "CollectionExists E db collection q =
     (case Collections E db q of
        Panic \<Rightarrow> Panic
      | Return (Inl err) \<Rightarrow>
          if errors_Is err ErrSchemaNotExist then Return (Inr False) else Return (Inl err)
      | Return (Inr collections) \<Rightarrow> Return (Inr (collection \<in> set collections)))"

text \<open>
  \<open>CreateCollection\<close> creates a collection in an existing schema.  The result is the Go
  \<open>error\<close> (\<open>None\<close> for \<open>nil\<close>) and the state of the backend after the call.
\<close>

definition create_table_sql :: "'q pgdb_env \<Rightarrow> string \<Rightarrow> string \<Rightarrow> string" where
  "create_table_sql E db table =
     ''CREATE TABLE IF NOT EXISTS '' @ Sanitize E [db, table] @ '' (_jsonb jsonb)''"

definition CreateCollection ::
  "'q pgdb_env \<Rightarrow> string \<Rightarrow> string \<Rightarrow> 'q \<Rightarrow> error option outcome \<times> 'q" where
  "CreateCollection E db collection q =
     (if \<not> MatchString validateCollectionNameRe collection \<or>
         HasPrefix collection (reservedPrefix E)
      then (Return (Some ErrInvalidTableName), q)
      else
        (case schemaExists E db q of
           Inl err \<Rightarrow> (Return (Some (LazyError (Backend err))), q)
         | Inr ex \<Rightarrow>
             if \<not> ex then (Return (Some ErrSchemaNotExist), q)
             else
               let table = formatCollectionName E collection in
               (case tables E db q of
                  Inl err \<Rightarrow> (Return (Some (Backend err)), q)
                | Inr ts \<Rightarrow>
                    if table \<in> set ts then (Return (Some ErrAlreadyExist), q)
                    else
                      (case getSettingsTable E db q of
                         Inl err \<Rightarrow> (Return (Some (LazyError (Backend err))), q)
                       | Inr settings \<Rightarrow>
                           (case doc_Get settings ''collections'' of
                              None \<Rightarrow> (Panic, q)
                            | Some collectionsDoc \<Rightarrow>
                                (case collectionsDoc of
                                   VDocument collections \<Rightarrow>
                                     if doc_Has collections collection then (Return None, q)
                                     else
                                       let collections' =
                                             doc_Set collections collection (VString table);
                                           settings' =
                                             doc_Set settings ''collections''
                                               (VDocument collections')
                                       in
                                       (case updateSettingsTable E db settings' q of
                                          (Some err, q1) \<Rightarrow>
                                            (Return (Some (LazyError (Backend err))), q1)
                                        | (None, q1) \<Rightarrow>
                                            (case Exec E (create_table_sql E db table) q1 of
                                               (None, q2) \<Rightarrow> (Return None, q2)
                                             | (Some err, q2) \<Rightarrow>
                                                 (case err of
                                                    PgError code \<Rightarrow>
                                                      if code = UniqueViolation \<or>
                                                         code = DuplicateObject \<or>
                                                         code = DuplicateTable
                                                      then (Return (Some ErrAlreadyExist), q2)
                                                      else (Return (Some (LazyError (Backend err))), q2)
                                                  | OtherFailure _ \<Rightarrow>
                                                      (Return (Some (LazyError (Backend err))), q2))))
                                 | _ \<Rightarrow>
                                     (Return (Some (LazyErrorf ''expected document'')), q)))))))"

text \<open>
  A call fails with \<open>target\<close> when it returns an error that \<open>errors.Is\<close> the target.
\<close>

definition fails_with :: "error option outcome \<Rightarrow> error \<Rightarrow> bool" where
  "fails_with r target = (case r of Return (Some e) \<Rightarrow> errors_Is e target | _ \<Rightarrow> False)"

section \<open>Package tigris: the delete command\<close>

text \<open>
  The errors seen by the handler: a protocol error built by \<open>common.NewErrorMsg\<close> with its
  code and message, an error wrapped by \<open>lazyerrors.Error\<close>, whatever the driver reports,
  and any other Go error.
\<close>

datatype ErrorCode = ErrBadValue | ErrNotImplemented | ErrTypeMismatch

datatype cmd_error =
    CommandError ErrorCode string
  | LazyCmd cmd_error
  | DriverError string
  | OtherError string

text \<open>Type assertions \<open>v.(T)\<close> on a value.\<close>

definition as_Document :: "val \<Rightarrow> document option" where
  "as_Document v = (case v of VDocument d \<Rightarrow> Some d | _ \<Rightarrow> None)"

definition as_Array :: "val \<Rightarrow> val list option" where
  "as_Array v = (case v of VArray a \<Rightarrow> Some a | _ \<Rightarrow> None)"

definition as_Bool :: "val \<Rightarrow> bool option" where
  "as_Bool v = (case v of VBool b \<Rightarrow> Some b | _ \<Rightarrow> None)"

definition as_String :: "val \<Rightarrow> string option" where
  "as_String v = (case v of VString s \<Rightarrow> Some s | _ \<Rightarrow> None)"

text \<open>
  Modelled from the spec: the helpers of package \<open>common\<close> that read the command
  document (the package is not part of the sources at hand).  Section 4.1: a typed
  accessor fails with a type mismatch; section 4.4: an optional field that is absent
  takes its default, a required one that is absent is an error, and a field that is
  recognised but not emulated is rejected as unimplemented.
\<close>

definition AssertType :: "(val \<Rightarrow> 'a option) \<Rightarrow> val \<Rightarrow> cmd_error + 'a" where
  "AssertType as v =
     (case as v of None \<Rightarrow> Inl (CommandError ErrTypeMismatch ''unexpected type'') | Some x \<Rightarrow> Inr x)"

text \<open>Modelled from the spec: an optional field; the default when it is absent.\<close>

definition GetOptionalParam ::
  "document \<Rightarrow> string \<Rightarrow> 'a \<Rightarrow> (val \<Rightarrow> 'a option) \<Rightarrow> cmd_error + 'a" where
  "GetOptionalParam d key defaultValue as =
     (case doc_Get d key of None \<Rightarrow> Inr defaultValue | Some v \<Rightarrow> AssertType as v)"

text \<open>Modelled from the spec: a required field; an error when it is absent.\<close>

definition GetRequiredParam :: "document \<Rightarrow> string \<Rightarrow> (val \<Rightarrow> 'a option) \<Rightarrow> cmd_error + 'a" where
  "GetRequiredParam d key as =
     (case doc_Get d key of
        None \<Rightarrow> Inl (CommandError ErrBadValue (''required parameter '' @ key @ '' is missing''))
      | Some v \<Rightarrow> AssertType as v)"

text \<open>Modelled from the spec: the first of the given fields that is present is rejected.\<close>

definition Unimplemented :: "document \<Rightarrow> string list \<Rightarrow> cmd_error option" where
  "Unimplemented d names =
     (case filter (doc_Has d) names of
        [] \<Rightarrow> None
      | f # _ \<Rightarrow> Some (CommandError ErrNotImplemented (f @ '' is not implemented'')))"

text \<open>
  \<open>common.WriteErrors\<close>: the errors of the statements, each with the index it was
  appended under.
\<close>

type_synonym WriteErrors = "(cmd_error \<times> 32 word) list"

text \<open>Modelled from the spec: \<open>Append\<close> records the error under the given index.\<close>

definition Append :: "WriteErrors \<Rightarrow> cmd_error \<Rightarrow> 32 word \<Rightarrow> WriteErrors" where
  "Append we err index = we @ [(err, index)]"

record FetchParam =
  DB :: string
  Collection :: string

text \<open>
  The filter handed to the driver: \<open>{}\<close>, one \<open>{"_id": {"$eq": id}}\<close>, or the \<open>$or\<close> of
  several, where \<open>id\<close> is the marshalled \<open>_id\<close>.
\<close>

datatype id_filter = IdEq string

datatype driver_filter = FilterAll | FilterOne id_filter | FilterOr "id_filter list"

text \<open>
  What the handler calls and the sources at hand do not contain is taken as a parameter,
  over a state \<open>'s\<close> of the database and a response \<open>'r\<close> of the driver's \<open>Delete\<close>:
  the remaining helpers of \<open>common\<close>, the marshaller, the two calls of the database, the
  setter of the reply's sections, and the code and message under which an error is
  reported to the client.
\<close>

record ('s, 'r) handler_env =
  GetWholeNumberParam :: "val \<Rightarrow> cmd_error + 64 word"
  AliasFromType :: "val \<Rightarrow> string"
  FilterDocument :: "document \<Rightarrow> document option \<Rightarrow> cmd_error + bool"
  LimitDocuments :: "document list \<Rightarrow> 64 word \<Rightarrow> cmd_error + document list"
  tjson_Marshal :: "val \<Rightarrow> cmd_error + string"
  QueryDocuments :: "FetchParam \<Rightarrow> 's \<Rightarrow> (cmd_error + document list) \<times> 's"
  Driver_Delete :: "string \<Rightarrow> string \<Rightarrow> driver_filter \<Rightarrow> 's \<Rightarrow> (cmd_error + 'r) \<times> 's"
  SetSections :: "document list \<Rightarrow> cmd_error option"
  error_code :: "cmd_error \<Rightarrow> 32 word"
  error_msg :: "cmd_error \<Rightarrow> string"

text \<open>
  Modelled from the spec: \<open>WriteErrors.Document\<close> (in package \<open>common\<close>, not part of the
  sources at hand).  Sections 4.4 and 7: a reply to a command with failed statements
  holds \<open>writeErrors: [{index, code, errmsg}, ...]\<close> and no \<open>ok\<close> field.
\<close>

definition WriteErrors_Document :: "('s, 'r) handler_env \<Rightarrow> WriteErrors \<Rightarrow> document" where
  "WriteErrors_Document H we =
     [(''writeErrors'',
       VArray (map (\<lambda>(e, i). VDocument [(''index'', VInt32 i),
                                         (''code'', VInt32 (error_code H e)),
                                         (''errmsg'', VString (error_msg H e))]) we))]"

text \<open>
  The state a run of the command works on: the captured counter \<open>deleted\<close>, the collected
  \<open>delErrors\<close>, and the database.
\<close>

record 's run =
  deleted :: "32 word"
  delErrors :: WriteErrors
  database :: 's

text \<open>
  \<open>delete\<close>, first loop: one \<open>$eq\<close> filter per document.  \<open>must.NotFail\<close> panics on a
  document without \<open>_id\<close> and on an \<open>_id\<close> that cannot be marshalled.
\<close>

fun delete_ids :: "('s, 'r) handler_env \<Rightarrow> document list \<Rightarrow> id_filter list outcome" where
  "delete_ids H [] = Return []"
| "delete_ids H (doc # docs) =
     (case doc_Get doc ''_id'' of
        None \<Rightarrow> Panic
      | Some v \<Rightarrow>
          (case tjson_Marshal H v of
             Inl _ \<Rightarrow> Panic
           | Inr raw \<Rightarrow>
               (case delete_ids H docs of
                  Panic \<Rightarrow> Panic
                | Return ids \<Rightarrow> Return (IdEq raw # ids))))"

text \<open>\<open>delete\<close> deletes documents by \<open>_id\<close>; the driver's response is dropped.\<close>

definition delete ::
  "('s, 'r) handler_env \<Rightarrow> FetchParam \<Rightarrow> document list \<Rightarrow> 's \<Rightarrow> (cmd_error + nat) outcome \<times> 's" where
  "delete H fp docs s =
     (case delete_ids H docs of
        Panic \<Rightarrow> (Panic, s)
      | Return ids \<Rightarrow>
          let f = (case ids of [] \<Rightarrow> FilterAll | [x] \<Rightarrow> FilterOne x | _ \<Rightarrow> FilterOr ids) in
          (case Driver_Delete H (DB fp) (Collection fp) f s of
             (Inl err, s') \<Rightarrow> (Return (Inl (LazyCmd err)), s')
           | (Inr _, s') \<Rightarrow> (Return (Inr (length ids)), s')))"

text \<open>The loop of \<open>processQuery\<close> over the fetched documents: keep the matching ones.\<close>

fun filter_loop ::
  "('s, 'r) handler_env \<Rightarrow> document option \<Rightarrow> document list \<Rightarrow> document list \<Rightarrow>
   cmd_error + document list" where
  "filter_loop H flt [] resDocs = Inr resDocs"
| "filter_loop H flt (doc # fetchedDocs) resDocs =
     (case FilterDocument H doc flt of
        Inl err \<Rightarrow> Inl err
      | Inr matches \<Rightarrow>
          filter_loop H flt fetchedDocs (if matches then resDocs @ [doc] else resDocs))"

text \<open>
  \<open>processQuery\<close>, up to and including the call of \<open>LimitDocuments\<close>: the statement's
  filter and limit are read, the collection is fetched, filtered and limited.  The result
  is the error, or the fetch parameters and the documents to delete.
\<close>

definition processQuery_docs ::
  "('s, 'r) handler_env \<Rightarrow> document \<Rightarrow> val list \<Rightarrow> nat \<Rightarrow> 's \<Rightarrow>
   (cmd_error + FetchParam \<times> document list) outcome \<times> 's" where
  "processQuery_docs H document deletes i s =
     (if \<not> i < length deletes then (Panic, s)
      else
        (case AssertType as_Document (deletes ! i) of
           Inl err \<Rightarrow> (Return (Inl err), s)
         | Inr d \<Rightarrow>
        (case Unimplemented d [''collation'', ''hint''] of
           Some err \<Rightarrow> (Return (Inl err), s)
         | None \<Rightarrow>
        (case GetOptionalParam d ''q'' None (\<lambda>v. map_option Some (as_Document v)) of
           Inl err \<Rightarrow> (Return (Inl err), s)
         | Inr flt \<Rightarrow>
        (case (case doc_Get d ''limit'' of
                 None \<Rightarrow> Inr 0
               | Some l \<Rightarrow> GetWholeNumberParam H l) of
           Inl err \<Rightarrow> (Return (Inl err), s)
         | Inr limit \<Rightarrow>
        (case GetRequiredParam document ''$db'' as_String of
           Inl err \<Rightarrow> (Return (Inl err), s)
         | Inr dbName \<Rightarrow>
        (case doc_Get document (doc_Command document) of
           None \<Rightarrow> (Return (Inl (OtherError ''key not found'')), s)
         | Some collectionParam \<Rightarrow>
        (case as_String collectionParam of
           None \<Rightarrow>
             (Return (Inl (CommandError ErrBadValue
                (''collection name has invalid type '' @ AliasFromType H collectionParam))), s)
         | Some collectionName \<Rightarrow>
             let fp = \<lparr>DB = dbName, Collection = collectionName\<rparr> in
        (case QueryDocuments H fp s of
           (Inl err, s1) \<Rightarrow> (Return (Inl err), s1)
         | (Inr fetchedDocs, s1) \<Rightarrow>
        (case filter_loop H flt fetchedDocs [] of
           Inl err \<Rightarrow> (Return (Inl err), s1)
         | Inr resDocs \<Rightarrow>
        (case LimitDocuments H resDocs limit of
           Inl err \<Rightarrow> (Return (Inl err), s1)
         | Inr resDocs' \<Rightarrow> (Return (Inr (fp, resDocs')), s1))))))))))))"

text \<open>
  \<open>processQuery\<close>: nothing to do when no document is left, else the documents are
  deleted and the counter grows by what \<open>delete\<close> returns, converted to \<open>int32\<close>.
\<close>

definition processQuery ::
  "('s, 'r) handler_env \<Rightarrow> document \<Rightarrow> val list \<Rightarrow> nat \<Rightarrow> 's run \<Rightarrow>
   cmd_error option outcome \<times> 's run" where
  "processQuery H document deletes i st =
     (case processQuery_docs H document deletes i (database st) of
        (Panic, s1) \<Rightarrow> (Panic, st\<lparr>database := s1\<rparr>)
      | (Return (Inl err), s1) \<Rightarrow> (Return (Some err), st\<lparr>database := s1\<rparr>)
      | (Return (Inr (fp, resDocs)), s1) \<Rightarrow>
          if length resDocs = 0 then (Return None, st\<lparr>database := s1\<rparr>)
          else
            (case delete H fp resDocs s1 of
               (Panic, s2) \<Rightarrow> (Panic, st\<lparr>database := s2\<rparr>)
             | (Return (Inl err), s2) \<Rightarrow> (Return (Some err), st\<lparr>database := s2\<rparr>)
             | (Return (Inr res), s2) \<Rightarrow>
                 (Return None, st\<lparr>database := s2, deleted := deleted st + of_nat res\<rparr>)))"

text \<open>
  The loop of \<open>MsgDelete\<close> over the statements: an error is appended under the index of
  its statement, and ends the loop when \<open>ordered\<close> is set.
\<close>

function delete_loop ::
  "('s, 'r) handler_env \<Rightarrow> document \<Rightarrow> val list \<Rightarrow> bool \<Rightarrow> nat \<Rightarrow> 's run \<Rightarrow>
   unit outcome \<times> 's run" where
  "delete_loop H document deletes ordered i st =
     (if i < length deletes then
        (case processQuery H document deletes i st of
           (Panic, st') \<Rightarrow> (Panic, st')
         | (Return (Some err), st') \<Rightarrow>
             let st'' = st'\<lparr>delErrors := Append (delErrors st') err (of_nat i)\<rparr> in
             if ordered then (Return (), st'')
             else delete_loop H document deletes ordered (i + 1) st''
         | (Return None, st') \<Rightarrow> delete_loop H document deletes ordered (i + 1) st')
      else (Return (), st))"
  by pat_completeness auto
termination
  by (relation "measure (\<lambda>(H, document, deletes, ordered, i, st). length deletes - i)") auto

text \<open>
  The fields \<open>deletes\<close> and \<open>ordered\<close> of the command, after the check for \<open>let\<close>;
  \<open>ordered\<close> defaults to true.  An absent \<open>deletes\<close> is the nil array, whose length is
  taken to be 0.  \<open>common.Ignored\<close> only logs.
\<close>

definition delete_params :: "document \<Rightarrow> cmd_error + val list \<times> bool" where
  "delete_params document =
     (case Unimplemented document [''let''] of
        Some err \<Rightarrow> Inl err
      | None \<Rightarrow>
          (case GetOptionalParam document ''deletes'' [] as_Array of
             Inl err \<Rightarrow> Inl err
           | Inr deletes \<Rightarrow>
               (case GetOptionalParam document ''ordered'' True as_Bool of
                  Inl err \<Rightarrow> Inl err
                | Inr ordered \<Rightarrow> Inr (deletes, ordered))))"

text \<open>The reply document: \<open>writeErrors\<close> when there are errors, else \<open>ok\<close>; then \<open>n\<close>.\<close>

definition replyDoc :: "('s, 'r) handler_env \<Rightarrow> 's run \<Rightarrow> document" where
  "replyDoc H st =
     doc_Set
       (if length (delErrors st) > 0 then WriteErrors_Document H (delErrors st)
        else [(''ok'', VDouble 1)])
       ''n'' (VInt32 (deleted st))"

text \<open>
  \<open>MsgDelete\<close>, from the result of \<open>msg.Document()\<close> and the database to the reply (the
  documents of its one section) or the error, and the database after the command.
\<close>

definition MsgDelete ::
  "('s, 'r) handler_env \<Rightarrow> cmd_error + document \<Rightarrow> 's \<Rightarrow>
   (cmd_error + document list) outcome \<times> 's" where
  "MsgDelete H msgDocument s =
     (case msgDocument of
        Inl err \<Rightarrow> (Return (Inl (LazyCmd err)), s)
      | Inr document \<Rightarrow>
          (case delete_params document of
             Inl err \<Rightarrow> (Return (Inl err), s)
           | Inr (deletes, ordered) \<Rightarrow>
               (case delete_loop H document deletes ordered 0
                       \<lparr>deleted = 0, delErrors = [], database = s\<rparr> of
                  (Panic, st) \<Rightarrow> (Panic, database st)
                | (Return _, st) \<Rightarrow>
                    (case SetSections H [replyDoc H st] of
                       Some err \<Rightarrow> (Return (Inl (LazyCmd err)), database st)
                     | None \<Rightarrow> (Return (Inr [replyDoc H st]), database st)))))"

text \<open>
  Modelled from the spec: \<open>common.LimitDocuments\<close> (not part of the sources at hand).
  Section 4.3 gives the exact sign semantics: a limit of 0 is unlimited, a limit of 1 keeps
  at most one document, any other positive limit bounds the count, and a negative limit
  behaves as its absolute value.
\<close>

definition LimitDocuments_spec :: "document list \<Rightarrow> 64 word \<Rightarrow> cmd_error + document list" where
  "LimitDocuments_spec docs limit =
     (if limit = 0 then Inr docs else Inr (take (nat \<bar>sint limit\<bar>) docs))"

section \<open>Statements of a delete command, one after the other\<close>

text \<open>
  \<open>after_statements H document deletes n st\<close> is the state reached from \<open>st\<close> when the
  statements \<open>0, ..., n - 1\<close> and no others have each been attempted once, in this order,
  the error of a statement being recorded under its index.  \<open>statement_result\<close> is what
  statement \<open>n\<close> returns when attempted next, and \<open>statement_errors\<close> lists the errors of
  the first \<open>n\<close> statements with their indices.
\<close>

fun after_statements ::
  "('s, 'r) handler_env \<Rightarrow> document \<Rightarrow> val list \<Rightarrow> nat \<Rightarrow> 's run \<Rightarrow> 's run" where
  "after_statements H document deletes 0 st = st"
| "after_statements H document deletes (Suc n) st =
     (case processQuery H document deletes n (after_statements H document deletes n st) of
        (Return (Some err), st') \<Rightarrow> st'\<lparr>delErrors := Append (delErrors st') err (of_nat n)\<rparr>
      | (_, st') \<Rightarrow> st')"

definition statement_result ::
  "('s, 'r) handler_env \<Rightarrow> document \<Rightarrow> val list \<Rightarrow> nat \<Rightarrow> 's run \<Rightarrow> cmd_error option outcome" where
  "statement_result H document deletes n st =
     fst (processQuery H document deletes n (after_statements H document deletes n st))"

definition statement_errors ::
  "('s, 'r) handler_env \<Rightarrow> document \<Rightarrow> val list \<Rightarrow> nat \<Rightarrow> 's run \<Rightarrow> WriteErrors" where
  "statement_errors H document deletes n st =
     concat (map (\<lambda>i. case statement_result H document deletes i st of
                         Return (Some err) \<Rightarrow> [(err, of_nat i)]
                       | _ \<Rightarrow> [])
               [0..<n])"

text \<open>
  The state in which \<open>MsgDelete\<close> enters its loop, and the end of \<open>MsgDelete\<close> after the
  loop: a panic goes on, otherwise the reply document is built and set as the one section
  of the reply.
\<close>

definition initial_run :: "'s \<Rightarrow> 's run" where
  "initial_run s = \<lparr>deleted = 0, delErrors = [], database = s\<rparr>"

definition send_reply ::
  "('s, 'r) handler_env \<Rightarrow> unit outcome \<times> 's run \<Rightarrow>
   (cmd_error + document list) outcome \<times> 's" where
  "send_reply H r =
     (case r of
        (Panic, st) \<Rightarrow> (Panic, database st)
      | (Return _, st) \<Rightarrow>
          (case SetSections H [replyDoc H st] of
             Some err \<Rightarrow> (Return (Inl (LazyCmd err)), database st)
           | None \<Rightarrow> (Return (Inr [replyDoc H st]), database st)))"

section \<open>The cursor over a table\<close>

text \<open>
  Modelled from the spec: the cursor of section 4.3 (\<open>QueryDocuments\<close> and its iterator
  are not part of the sources at hand, only their test is).  The producer deposits the
  rows in batches of the slice capacity; \<open>next\<close> advances to the next batch and returns
  false when none is left or an error is latched; \<open>batch\<close> is the current batch or the
  latched error.  Over a table that does not exist, no batch is produced and no error is
  latched.  Seen by one consumer without cancellation, the batches are a list.
\<close>

record cursor =
  pending :: "document list list"
  current :: "document list"
  latched :: "error option"

text \<open>Modelled from the spec: the rows in batches of the slice capacity.\<close>

function chunks :: "nat \<Rightarrow> 'a list \<Rightarrow> 'a list list" where
  "chunks cap xs =
     (if cap = 0 \<or> xs = [] then [] else take cap xs # chunks cap (drop cap xs))"
  by pat_completeness auto
termination
  by (relation "measure (\<lambda>(cap, xs). length xs)") auto

text \<open>Modelled from the spec: the cursor over the rows of a table, or over no table.\<close>

definition new_cursor :: "nat \<Rightarrow> document list option \<Rightarrow> cursor" where
  "new_cursor sliceCapacity table_rows =
     \<lparr> pending = (case table_rows of None \<Rightarrow> [] | Some rows \<Rightarrow> chunks sliceCapacity rows),
       current = [],
       latched = None \<rparr>"

text \<open>Modelled from the spec: \<open>next\<close>.\<close>

definition cursor_next :: "cursor \<Rightarrow> bool \<times> cursor" where
  "cursor_next c =
     (case latched c of
        Some _ \<Rightarrow> (False, c)
      | None \<Rightarrow>
          (case pending c of
             [] \<Rightarrow> (False, c\<lparr>current := []\<rparr>)
           | b # bs \<Rightarrow> (True, c\<lparr>current := b, pending := bs\<rparr>)))"

text \<open>Modelled from the spec: \<open>batch\<close>.\<close>

definition cursor_batch :: "cursor \<Rightarrow> error + document list" where
  "cursor_batch c = (case latched c of Some e \<Rightarrow> Inl e | None \<Rightarrow> Inr (current c))"

text \<open>
  Modelled from the spec: draining the cursor, batch after batch, as the consumer of a
  command does.
\<close>

function drain :: "cursor \<Rightarrow> document list \<Rightarrow> error + document list" where
  "drain c docs =
     (case cursor_next c of
        (False, c') \<Rightarrow> (case latched c' of Some e \<Rightarrow> Inl e | None \<Rightarrow> Inr docs)
      | (True, c') \<Rightarrow>
          (case cursor_batch c' of
             Inl e \<Rightarrow> Inl e
           | Inr b \<Rightarrow> drain c' (docs @ b)))"
  by pat_completeness auto
termination
  by (relation "measure (\<lambda>(c, docs). length (pending c))")
     (auto simp: cursor_next_def split: option.splits list.splits)

text \<open>
  Modelled from the spec: \<open>find\<close> (sections 7 and 8): a successful read replies
  \<open>{ok: 1.0, n: <count>}\<close> and yields the documents drained from the cursor.
\<close>

definition find :: "nat \<Rightarrow> document list option \<Rightarrow> error + document \<times> document list" where
  "find sliceCapacity table_rows =
     (case drain (new_cursor sliceCapacity table_rows) [] of
        Inl e \<Rightarrow> Inl e
      | Inr docs \<Rightarrow>
          Inr ([(''ok'', VDouble 1), (''n'', VInt32 (of_nat (length docs)))], docs))"

section \<open>Small backends for the examples\<close>

record pgstate =
  pg_settings :: "(string \<times> document) list"
  pg_tables :: "(string \<times> string) list"
  pg_executed :: "string list"

fun quote_ident :: "string list \<Rightarrow> string" where
  "quote_ident [] = []"
| "quote_ident [p] = [CHR 0x22] @ p @ [CHR 0x22]"
| "quote_ident (p # ps) = [CHR 0x22] @ p @ [CHR 0x22] @ ''.'' @ quote_ident ps"

definition E0 :: "pgstate pgdb_env" where
  "E0 = \<lparr> reservedPrefix = ''_ferretdb_'',
          formatCollectionName = (\<lambda>c. c),
          Sanitize = quote_ident,
          schemaExists = (\<lambda>db q. Inr (db \<in> set (map fst (pg_settings q)))),
          tables = (\<lambda>db q. Inr (map snd (filter (\<lambda>p. fst p = db) (pg_tables q)))),
          getSettingsTable = (\<lambda>db q. case map_of (pg_settings q) db of
                                        None \<Rightarrow> Inl (OtherFailure ''no settings'')
                                      | Some s \<Rightarrow> Inr s),
          updateSettingsTable = (\<lambda>db s q. (None, q\<lparr>pg_settings := (db, s) # pg_settings q\<rparr>)),
          Exec = (\<lambda>sql q. (None, q\<lparr>pg_executed := pg_executed q @ [sql]\<rparr>)) \<rparr>"

text \<open>A schema \<open>acme\<close> without collections.\<close>

definition q_fresh :: pgstate where
  "q_fresh = \<lparr> pg_settings = [(''acme'', [(''collections'', VDocument [])])],
               pg_tables = [], pg_executed = [] \<rparr>"

text \<open>The settings of \<open>acme\<close> map \<open>users\<close>, but the schema has no table.\<close>

definition q_stale :: pgstate where
  "q_stale = \<lparr> pg_settings =
                 [(''acme'', [(''collections'', VDocument [(''users'', VString ''users'')])])],
               pg_tables = [], pg_executed = [] \<rparr>"

text \<open>The schema \<open>acme\<close> already has the table \<open>users\<close>.\<close>

definition q_table :: pgstate where
  "q_table = \<lparr> pg_settings = [(''acme'', [(''collections'', VDocument [])])],
               pg_tables = [(''acme'', ''users'')], pg_executed = [] \<rparr>"

text \<open>A backend whose \<open>CREATE TABLE\<close> loses against a concurrent creator.\<close>

definition E_race :: "pgstate pgdb_env" where
  "E_race = E0 \<lparr> Exec := (\<lambda>sql q. (Some (PgError DuplicateTable), q)) \<rparr>"

text \<open>Three collections, stored out of order.\<close>

definition q_three :: pgstate where
  "q_three = \<lparr> pg_settings =
                 [(''acme'', [(''collections'',
                    VDocument [(''users'', VString ''users''), (''Orders'', VString ''orders''),
                               (''accounts'', VString ''accounts'')])])],
               pg_tables = [], pg_executed = [] \<rparr>"

text \<open>
  A database of one collection, a list of documents with string \<open>_id\<close>; the driver's
  response is the number of documents it removed.
\<close>

definition id_matches :: "driver_filter \<Rightarrow> document \<Rightarrow> bool" where
  "id_matches f d =
     (case f of
        FilterAll \<Rightarrow> True
      | FilterOne (IdEq r) \<Rightarrow> doc_Get d ''_id'' = Some (VString r)
      | FilterOr ids \<Rightarrow>
          list_ex (\<lambda>x. case x of IdEq r \<Rightarrow> doc_Get d ''_id'' = Some (VString r)) ids)"

definition H0 :: "(document list, nat) handler_env" where
  "H0 = \<lparr> GetWholeNumberParam =
            (\<lambda>v. case v of
                    VInt64 w \<Rightarrow> Inr w
                  | _ \<Rightarrow> Inl (CommandError ErrBadValue ''not a whole number'')),
          AliasFromType = (\<lambda>v. ''value''),
          FilterDocument =
            (\<lambda>doc flt. Inr (case flt of
                              None \<Rightarrow> True
                            | Some f \<Rightarrow> list_all (\<lambda>(k, v). doc_Get doc k = Some v) f)),
          LimitDocuments = LimitDocuments_spec,
          tjson_Marshal =
            (\<lambda>v. case v of
                    VString s \<Rightarrow> Inr s
                  | _ \<Rightarrow> Inl (CommandError ErrBadValue ''cannot marshal'')),
          QueryDocuments = (\<lambda>fp s. (Inr s, s)),
          Driver_Delete =
            (\<lambda>db coll f s. (Inr (length (filter (id_matches f) s)),
                            filter (\<lambda>d. \<not> id_matches f d) s)),
          SetSections = (\<lambda>docs. None),
          error_code =
            (\<lambda>e. case e of
                    CommandError ErrBadValue _ \<Rightarrow> 2
                  | CommandError ErrNotImplemented _ \<Rightarrow> 238
                  | CommandError ErrTypeMismatch _ \<Rightarrow> 14
                  | _ \<Rightarrow> 1),
          error_msg =
            (\<lambda>e. case e of CommandError _ m \<Rightarrow> m | _ \<Rightarrow> ''internal error'') \<rparr>"

text \<open>The same database behind a driver that removes nothing and reports 0.\<close>

definition H_idle :: "(document list, nat) handler_env" where
  "H_idle = H0 \<lparr> Driver_Delete := (\<lambda>db coll f s. (Inr 0, s)) \<rparr>"

definition three_docs :: "document list" where
  "three_docs = [[(''_id'', VString ''1'')], [(''_id'', VString ''2'')], [(''_id'', VString ''3'')]]"

text \<open>
  Three statements, the middle one not a document; with and without \<open>ordered: false\<close>.
\<close>

definition three_deletes :: "val list" where
  "three_deletes =
     [VDocument [(''q'', VDocument [(''_id'', VString ''1'')]), (''limit'', VInt64 1)],
      VString ''oops'',
      VDocument [(''q'', VDocument [(''_id'', VString ''3'')]), (''limit'', VInt64 1)]]"

definition delete_cmd :: document where
  "delete_cmd = [(''delete'', VString ''users''), (''deletes'', VArray three_deletes),
                 (''$db'', VString ''acme'')]"

definition delete_cmd_unordered :: document where
  "delete_cmd_unordered =
     [(''delete'', VString ''users''), (''deletes'', VArray three_deletes),
      (''ordered'', VBool False), (''$db'', VString ''acme'')]"

text \<open>Two statements that both succeed, the second matching nothing.\<close>

definition delete_cmd_ok :: document where
  "delete_cmd_ok =
     [(''delete'', VString ''users''),
      (''deletes'', VArray
         [VDocument [(''q'', VDocument [(''_id'', VString ''1'')]), (''limit'', VInt64 1)],
          VDocument [(''q'', VDocument [(''_id'', VString ''nope'')]), (''limit'', VInt64 1)]]),
      (''$db'', VString ''acme'')]"

text \<open>
  An unordered command of two statements without filter, for a collection whose one
  document has no \<open>_id\<close>.
\<close>

definition no_id_docs :: "document list" where
  "no_id_docs = [[(''name'', VString ''x'')]]"

definition delete_cmd_all :: document where
  "delete_cmd_all =
     [(''delete'', VString ''users''), (''deletes'', VArray [VDocument [], VDocument []]),
      (''ordered'', VBool False), (''$db'', VString ''acme'')]"

definition run0 :: "document list run" where
  "run0 = \<lparr>deleted = 0, delErrors = [], database = three_docs\<rparr>"

section \<open>Delete command: the loop over the statements\<close>

declare delete_loop.simps [simp del]

lemma processQuery_delErrors:
  "delErrors (snd (processQuery H document deletes i st)) = delErrors st"
  unfolding processQuery_def
  by (simp split: prod.split outcome.split sum.split)

lemma processQuery_same_statement:
  assumes "i < length ds" "i < length ds'" "ds ! i = ds' ! i"
  shows "processQuery H document ds i st = processQuery H document ds' i st"
  using assms unfolding processQuery_def processQuery_docs_def by simp

lemma after_statements_prefix:
  assumes "k < length ds" "n \<le> Suc k"
  shows "after_statements H document (take (Suc k) ds @ later) n st =
         after_statements H document ds n st"
  using assms(2)
proof (induction n)
  case 0
  then show ?case by simp
next
  case (Suc n)
  then have n: "n \<le> k" by simp
  have "processQuery H document (take (Suc k) ds @ later) n s =
        processQuery H document ds n s" for s
    using assms(1) n by (intro processQuery_same_statement) (auto simp: nth_append)
  with Suc show ?case by simp
qed

lemma statement_result_prefix:
  assumes "k < length ds" "n \<le> k"
  shows "statement_result H document (take (Suc k) ds @ later) n st =
         statement_result H document ds n st"
proof -
  have "processQuery H document (take (Suc k) ds @ later) n s =
        processQuery H document ds n s" for s
    using assms by (intro processQuery_same_statement) (auto simp: nth_append)
  then show ?thesis
    using assms by (simp add: statement_result_def after_statements_prefix)
qed

lemma after_statements_delErrors:
  "delErrors (after_statements H document deletes n st) =
     delErrors st @ statement_errors H document deletes n st"
proof (induction n)
  case 0
  then show ?case by (simp add: statement_errors_def)
next
  case (Suc n)
  let ?st = "after_statements H document deletes n st"
  obtain r st' where p: "processQuery H document deletes n ?st = (r, st')"
    by (cases "processQuery H document deletes n ?st")
  have e: "delErrors st' = delErrors ?st"
    using processQuery_delErrors [of H document deletes n ?st] p by simp
  have r: "statement_result H document deletes n st = r"
    by (simp add: statement_result_def p)
  have split: "statement_errors H document deletes (Suc n) st =
      statement_errors H document deletes n st @
      (case r of Return (Some err) \<Rightarrow> [(err, of_nat n)] | _ \<Rightarrow> [])"
    by (simp add: statement_errors_def r)
  show ?case
    by (simp add: p e split Suc.IH Append_def split: outcome.split option.split)
qed

lemma delete_loop_unordered:
  assumes "\<forall>j<length deletes. statement_result H document deletes j st \<noteq> Panic"
    and "i \<le> length deletes"
  shows "delete_loop H document deletes False i (after_statements H document deletes i st) =
           (Return (), after_statements H document deletes (length deletes) st)"
  using assms(2)
proof (induction "length deletes - i" arbitrary: i)
  case 0
  then have "i = length deletes" by simp
  then show ?case by (simp add: delete_loop.simps)
next
  case (Suc d)
  then have lt: "i < length deletes" by simp
  let ?st = "after_statements H document deletes i st"
  obtain r st' where p: "processQuery H document deletes i ?st = (r, st')"
    by (cases "processQuery H document deletes i ?st")
  have np: "r \<noteq> Panic"
    using assms(1) lt p by (auto simp: statement_result_def)
  have ih: "delete_loop H document deletes False (Suc i)
              (after_statements H document deletes (Suc i) st) =
            (Return (), after_statements H document deletes (length deletes) st)"
    using Suc.hyps(1) [of "Suc i"] Suc.hyps(2) lt by simp
  show ?case
  proof (cases r)
    case Panic
    with np show ?thesis by simp
  next
    case (Return eo)
    show ?thesis
    proof (cases eo)
      case None
      with Return p ih lt show ?thesis
        by (simp add: delete_loop.simps [of H document deletes False i])
    next
      case (Some err)
      with Return p ih lt show ?thesis
        by (simp add: delete_loop.simps [of H document deletes False i] Let_def)
    qed
  qed
qed

lemma delete_loop_ordered:
  assumes "k < length deletes"
    and "\<forall>j<k. statement_result H document deletes j st = Return None"
    and "statement_result H document deletes k st = Return (Some err)"
    and "i \<le> k"
  shows "delete_loop H document deletes True i (after_statements H document deletes i st) =
           (Return (), after_statements H document deletes (Suc k) st)"
  using assms(4)
proof (induction "k - i" arbitrary: i)
  case 0
  then have ik: "i = k" by simp
  let ?st = "after_statements H document deletes k st"
  obtain st' where p: "processQuery H document deletes k ?st = (Return (Some err), st')"
    using assms(3) by (cases "processQuery H document deletes k ?st") (simp add: statement_result_def)
  show ?case
    unfolding ik using assms(1) p
    by (simp add: delete_loop.simps [of H document deletes True k] Let_def)
next
  case (Suc d)
  then have lt: "i < k" by simp
  let ?st = "after_statements H document deletes i st"
  obtain st' where p: "processQuery H document deletes i ?st = (Return None, st')"
    using assms(2) lt by (cases "processQuery H document deletes i ?st") (auto simp: statement_result_def)
  have ih: "delete_loop H document deletes True (Suc i)
              (after_statements H document deletes (Suc i) st) =
            (Return (), after_statements H document deletes (Suc k) st)"
    using Suc.hyps(1) [of "Suc i"] Suc.hyps(2) lt by simp
  show ?case
    using assms(1) lt p ih
    by (simp add: delete_loop.simps [of H document deletes True i])
qed

lemma statement_errors_first:
  assumes "\<forall>j<k. statement_result H document deletes j st = Return None"
    and "statement_result H document deletes k st = Return (Some err)"
  shows "statement_errors H document deletes (Suc k) st = [(err, of_nat k)]"
proof -
  have "concat (map (\<lambda>i. case statement_result H document deletes i st of
                         Return (Some err) \<Rightarrow> [(err, of_nat i)]
                       | _ \<Rightarrow> []) [0..<k]) = ([] :: WriteErrors)"
    using assms(1) by (induction k) auto
  then show ?thesis
    using assms(2) by (simp add: statement_errors_def)
qed

lemma delete_loop_unordered_panic:
  assumes "p < length deletes"
    and "\<forall>j<p. statement_result H document deletes j st \<noteq> Panic"
    and "statement_result H document deletes p st = Panic"
    and "i \<le> p"
  shows "fst (delete_loop H document deletes False i (after_statements H document deletes i st)) =
           Panic"
  using assms(4)
proof (induction "p - i" arbitrary: i)
  case 0
  then have ip: "i = p" by simp
  let ?st = "after_statements H document deletes p st"
  obtain st' where q: "processQuery H document deletes p ?st = (Panic, st')"
    using assms(3) by (cases "processQuery H document deletes p ?st") (simp add: statement_result_def)
  show ?case
    unfolding ip using assms(1) q
    by (simp add: delete_loop.simps [of H document deletes False p])
next
  case (Suc d)
  then have lt: "i < p" by simp
  then have li: "i < length deletes" using assms(1) by simp
  let ?st = "after_statements H document deletes i st"
  obtain r st' where q: "processQuery H document deletes i ?st = (r, st')"
    by (cases "processQuery H document deletes i ?st")
  have np: "r \<noteq> Panic"
    using assms(2) lt q by (auto simp: statement_result_def)
  have ih: "fst (delete_loop H document deletes False (Suc i)
              (after_statements H document deletes (Suc i) st)) = Panic"
    using Suc.hyps(1) [of "Suc i"] Suc.hyps(2) lt by simp
  show ?case
  proof (cases r)
    case Panic
    with np show ?thesis by simp
  next
    case (Return eo)
    show ?thesis
    proof (cases eo)
      case None
      with Return q ih li show ?thesis
        by (simp add: delete_loop.simps [of H document deletes False i])
    next
      case (Some err)
      with Return q ih li show ?thesis
        by (simp add: delete_loop.simps [of H document deletes False i] Let_def)
    qed
  qed
qed

lemma delete_params_ordered:
  "delete_params document = Inr (deletes, ordered) \<Longrightarrow>
     ordered = (doc_Get document ''ordered'' \<noteq> Some (VBool False))"
  unfolding delete_params_def GetOptionalParam_def AssertType_def as_Bool_def
  by (auto split: option.splits sum.splits val.splits)

lemma delete_params_deletes:
  "delete_params document = Inr (deletes, ordered) \<Longrightarrow>
     deletes = (case doc_Get document ''deletes'' of None \<Rightarrow> [] | Some v \<Rightarrow> the (as_Array v)) \<and>
     (\<forall>a. doc_Get document ''deletes'' = Some (VArray a) \<longrightarrow> deletes = a)"
  unfolding delete_params_def GetOptionalParam_def AssertType_def as_Array_def
  by (auto split: option.splits sum.splits val.splits)

lemma MsgDelete_send_reply:
  "delete_params document = Inr (deletes, ordered) \<Longrightarrow>
     MsgDelete H (Inr document) s =
       send_reply H (delete_loop H document deletes ordered 0 (initial_run s))"
  unfolding MsgDelete_def send_reply_def initial_run_def
  by (simp split: prod.split outcome.split option.split)

text \<open>
  Claim C1.  A delete command whose fields are read runs the loop over its \<open>deletes\<close>
  array with the flag of its \<open>ordered\<close> field: true when the field is absent or true,
  false when the field is false.  When the command is ordered and statement \<open>k\<close> is the
  first to return an error, the statements before it returning none, the command ends in
  the state reached right after statement \<open>k\<close> and replies from it, with this one error
  recorded under index \<open>k\<close>; whatever follows statement \<open>k\<close> in the array has no
  influence on the loop: the later statements are not attempted.  When the command is
  unordered and no statement panics, every statement of the array is attempted, the
  command replies from the state after the last one, and the errors recorded are those of
  the failing statements, each under the index of its statement, converted to \<open>int32\<close>.
  The side condition is needed: a statement panics when a matched document has no
  \<open>_id\<close> or an \<open>_id\<close> that cannot be marshalled, and then the command panics and the
  statements after it are not attempted.
\<close>

theorem delete_ordered_unordered:
  "(delete_params document = Inr (deletes, ordered) \<longrightarrow>
      ordered = (doc_Get document ''ordered'' \<noteq> Some (VBool False)) \<and>
      (\<forall>a. doc_Get document ''deletes'' = Some (VArray a) \<longrightarrow> deletes = a) \<and>
      MsgDelete H (Inr document) s =
        send_reply H (delete_loop H document deletes ordered 0 (initial_run s))) \<and>
   (delete_params document = Inr (deletes, ordered) \<and>
    doc_Get document ''ordered'' \<noteq> Some (VBool False) \<and>
    k < length deletes \<and>
    (\<forall>j<k. statement_result H document deletes j (initial_run s) = Return None) \<and>
    statement_result H document deletes k (initial_run s) = Return (Some err) \<longrightarrow>
      MsgDelete H (Inr document) s =
        send_reply H (Return (), after_statements H document deletes (Suc k) (initial_run s)) \<and>
      delErrors (after_statements H document deletes (Suc k) (initial_run s)) =
        [(err, of_nat k)]) \<and>
   (delete_params document = Inr (deletes, ordered) \<and>
    doc_Get document ''ordered'' = Some (VBool False) \<and>
    (\<forall>j<length deletes. statement_result H document deletes j (initial_run s) \<noteq> Panic) \<longrightarrow>
      MsgDelete H (Inr document) s =
        send_reply H
          (Return (), after_statements H document deletes (length deletes) (initial_run s)) \<and>
      delErrors (after_statements H document deletes (length deletes) (initial_run s)) =
        statement_errors H document deletes (length deletes) (initial_run s)) \<and>
   (delete_params document = Inr (deletes, ordered) \<and>
    doc_Get document ''ordered'' = Some (VBool False) \<and>
    p < length deletes \<and>
    (\<forall>j<p. statement_result H document deletes j (initial_run s) \<noteq> Panic) \<and>
    statement_result H document deletes p (initial_run s) = Panic \<longrightarrow>
      fst (MsgDelete H (Inr document) s) = Panic) \<and>
   (k < length deletes \<and>
    (\<forall>j<k. statement_result H document deletes j st = Return None) \<and>
    statement_result H document deletes k st = Return (Some err) \<longrightarrow>
      delete_loop H document deletes True 0 st =
        (Return (), after_statements H document deletes (Suc k) st) \<and>
      delErrors (after_statements H document deletes (Suc k) st) =
        delErrors st @ [(err, of_nat k)] \<and>
      (\<forall>later. delete_loop H document (take (Suc k) deletes @ later) True 0 st =
               delete_loop H document deletes True 0 st)) \<and>
   ((\<forall>j<length deletes. statement_result H document deletes j st \<noteq> Panic) \<longrightarrow>
      delete_loop H document deletes False 0 st =
        (Return (), after_statements H document deletes (length deletes) st) \<and>
      delErrors (after_statements H document deletes (length deletes) st) =
        delErrors st @ statement_errors H document deletes (length deletes) st)"
proof -
  have ordered_loop:
    "delete_loop H document deletes True 0 st' =
       (Return (), after_statements H document deletes (Suc k) st') \<and>
     delErrors (after_statements H document deletes (Suc k) st') =
       delErrors st' @ [(err, of_nat k)]"
    if k: "k < length deletes"
      and before: "\<forall>j<k. statement_result H document deletes j st' = Return None"
      and at: "statement_result H document deletes k st' = Return (Some err)"
    for st'
    using delete_loop_ordered [OF k before at, of 0]
      after_statements_delErrors [of H document deletes "Suc k" st']
      statement_errors_first [OF before at]
    by simp
  have unordered_loop:
    "delete_loop H document deletes False 0 st' =
       (Return (), after_statements H document deletes (length deletes) st') \<and>
     delErrors (after_statements H document deletes (length deletes) st') =
       delErrors st' @ statement_errors H document deletes (length deletes) st'"
    if np: "\<forall>j<length deletes. statement_result H document deletes j st' \<noteq> Panic"
    for st'
    using delete_loop_unordered [OF np, of 0]
      after_statements_delErrors [of H document deletes "length deletes" st']
    by simp
  have part1: "delete_params document = Inr (deletes, ordered) \<longrightarrow>
      ordered = (doc_Get document ''ordered'' \<noteq> Some (VBool False)) \<and>
      (\<forall>a. doc_Get document ''deletes'' = Some (VArray a) \<longrightarrow> deletes = a) \<and>
      MsgDelete H (Inr document) s =
        send_reply H (delete_loop H document deletes ordered 0 (initial_run s))"
    using delete_params_ordered [of document deletes ordered]
      delete_params_deletes [of document deletes ordered]
      MsgDelete_send_reply [of document deletes ordered H s]
    by blast
  have part2: "delete_params document = Inr (deletes, ordered) \<and>
    doc_Get document ''ordered'' \<noteq> Some (VBool False) \<and>
    k < length deletes \<and>
    (\<forall>j<k. statement_result H document deletes j (initial_run s) = Return None) \<and>
    statement_result H document deletes k (initial_run s) = Return (Some err) \<longrightarrow>
      MsgDelete H (Inr document) s =
        send_reply H (Return (), after_statements H document deletes (Suc k) (initial_run s)) \<and>
      delErrors (after_statements H document deletes (Suc k) (initial_run s)) =
        [(err, of_nat k)]"
  proof
    assume a: "delete_params document = Inr (deletes, ordered) \<and>
      doc_Get document ''ordered'' \<noteq> Some (VBool False) \<and>
      k < length deletes \<and>
      (\<forall>j<k. statement_result H document deletes j (initial_run s) = Return None) \<and>
      statement_result H document deletes k (initial_run s) = Return (Some err)"
    then have ord: ordered
      using delete_params_ordered [of document deletes ordered] by blast
    have m: "MsgDelete H (Inr document) s =
        send_reply H (delete_loop H document deletes True 0 (initial_run s))"
      using a ord MsgDelete_send_reply [of document deletes ordered H s] by simp
    have l: "delete_loop H document deletes True 0 (initial_run s) =
       (Return (), after_statements H document deletes (Suc k) (initial_run s)) \<and>
     delErrors (after_statements H document deletes (Suc k) (initial_run s)) =
       delErrors (initial_run s) @ [(err, of_nat k)]"
      using a by (intro ordered_loop) simp_all
    show "MsgDelete H (Inr document) s =
        send_reply H (Return (), after_statements H document deletes (Suc k) (initial_run s)) \<and>
      delErrors (after_statements H document deletes (Suc k) (initial_run s)) =
        [(err, of_nat k)]"
      using m l by (simp add: initial_run_def)
  qed
  have part3: "delete_params document = Inr (deletes, ordered) \<and>
    doc_Get document ''ordered'' = Some (VBool False) \<and>
    (\<forall>j<length deletes. statement_result H document deletes j (initial_run s) \<noteq> Panic) \<longrightarrow>
      MsgDelete H (Inr document) s =
        send_reply H
          (Return (), after_statements H document deletes (length deletes) (initial_run s)) \<and>
      delErrors (after_statements H document deletes (length deletes) (initial_run s)) =
        statement_errors H document deletes (length deletes) (initial_run s)"
  proof
    assume a: "delete_params document = Inr (deletes, ordered) \<and>
      doc_Get document ''ordered'' = Some (VBool False) \<and>
      (\<forall>j<length deletes. statement_result H document deletes j (initial_run s) \<noteq> Panic)"
    then have ord: "\<not> ordered"
      using delete_params_ordered [of document deletes ordered] by blast
    have m: "MsgDelete H (Inr document) s =
        send_reply H (delete_loop H document deletes False 0 (initial_run s))"
      using a ord MsgDelete_send_reply [of document deletes ordered H s] by simp
    have l: "delete_loop H document deletes False 0 (initial_run s) =
       (Return (), after_statements H document deletes (length deletes) (initial_run s)) \<and>
     delErrors (after_statements H document deletes (length deletes) (initial_run s)) =
       delErrors (initial_run s) @
       statement_errors H document deletes (length deletes) (initial_run s)"
      using a by (intro unordered_loop) simp
    show "MsgDelete H (Inr document) s =
        send_reply H
          (Return (), after_statements H document deletes (length deletes) (initial_run s)) \<and>
      delErrors (after_statements H document deletes (length deletes) (initial_run s)) =
        statement_errors H document deletes (length deletes) (initial_run s)"
      using m l by (simp add: initial_run_def)
  qed
  have part4: "delete_params document = Inr (deletes, ordered) \<and>
    doc_Get document ''ordered'' = Some (VBool False) \<and>
    p < length deletes \<and>
    (\<forall>j<p. statement_result H document deletes j (initial_run s) \<noteq> Panic) \<and>
    statement_result H document deletes p (initial_run s) = Panic \<longrightarrow>
      fst (MsgDelete H (Inr document) s) = Panic"
  proof
    assume a: "delete_params document = Inr (deletes, ordered) \<and>
      doc_Get document ''ordered'' = Some (VBool False) \<and>
      p < length deletes \<and>
      (\<forall>j<p. statement_result H document deletes j (initial_run s) \<noteq> Panic) \<and>
      statement_result H document deletes p (initial_run s) = Panic"
    then have ord: "\<not> ordered"
      using delete_params_ordered [of document deletes ordered] by blast
    have m: "MsgDelete H (Inr document) s =
        send_reply H (delete_loop H document deletes False 0 (initial_run s))"
      using a ord MsgDelete_send_reply [of document deletes ordered H s] by simp
    have "fst (delete_loop H document deletes False 0
                 (after_statements H document deletes 0 (initial_run s))) = Panic"
      using a by (intro delete_loop_unordered_panic [where p = p]) simp_all
    then have "fst (delete_loop H document deletes False 0 (initial_run s)) = Panic"
      by simp
    then show "fst (MsgDelete H (Inr document) s) = Panic"
      unfolding m send_reply_def
      by (cases "delete_loop H document deletes False 0 (initial_run s)") simp
  qed
  have part5: "k < length deletes \<and>
    (\<forall>j<k. statement_result H document deletes j st = Return None) \<and>
    statement_result H document deletes k st = Return (Some err) \<longrightarrow>
      delete_loop H document deletes True 0 st =
        (Return (), after_statements H document deletes (Suc k) st) \<and>
      delErrors (after_statements H document deletes (Suc k) st) =
        delErrors st @ [(err, of_nat k)] \<and>
      (\<forall>later. delete_loop H document (take (Suc k) deletes @ later) True 0 st =
               delete_loop H document deletes True 0 st)"
  proof
    assume a: "k < length deletes \<and>
      (\<forall>j<k. statement_result H document deletes j st = Return None) \<and>
      statement_result H document deletes k st = Return (Some err)"
    then have k: "k < length deletes"
      and before: "\<forall>j<k. statement_result H document deletes j st = Return None"
      and at: "statement_result H document deletes k st = Return (Some err)"
      by simp_all
    have loop: "delete_loop H document deletes True 0 st =
        (Return (), after_statements H document deletes (Suc k) st) \<and>
      delErrors (after_statements H document deletes (Suc k) st) =
        delErrors st @ [(err, of_nat k)]"
      using k before at by (rule ordered_loop)
    have indep: "\<forall>later. delete_loop H document (take (Suc k) deletes @ later) True 0 st =
               delete_loop H document deletes True 0 st"
    proof
      fix later
      let ?ds = "take (Suc k) deletes @ later"
      have k': "k < length ?ds" using k by simp
      have before': "\<forall>j<k. statement_result H document ?ds j st = Return None"
        using before k by (simp add: statement_result_prefix)
      have at': "statement_result H document ?ds k st = Return (Some err)"
        using at k by (simp add: statement_result_prefix)
      have "delete_loop H document ?ds True 0 st =
          (Return (), after_statements H document ?ds (Suc k) st)"
        using delete_loop_ordered [OF k' before' at', of 0] by simp
      also have "after_statements H document ?ds (Suc k) st =
          after_statements H document deletes (Suc k) st"
        using k by (intro after_statements_prefix) simp_all
      finally show "delete_loop H document ?ds True 0 st =
          delete_loop H document deletes True 0 st"
        using loop by simp
    qed
    show "delete_loop H document deletes True 0 st =
        (Return (), after_statements H document deletes (Suc k) st) \<and>
      delErrors (after_statements H document deletes (Suc k) st) =
        delErrors st @ [(err, of_nat k)] \<and>
      (\<forall>later. delete_loop H document (take (Suc k) deletes @ later) True 0 st =
               delete_loop H document deletes True 0 st)"
      using loop indep by blast
  qed
  have part6: "(\<forall>j<length deletes. statement_result H document deletes j st \<noteq> Panic) \<longrightarrow>
      delete_loop H document deletes False 0 st =
        (Return (), after_statements H document deletes (length deletes) st) \<and>
      delErrors (after_statements H document deletes (length deletes) st) =
        delErrors st @ statement_errors H document deletes (length deletes) st"
    using unordered_loop by blast
  show ?thesis
    using part1 part2 part3 part4 part5 part6 by (intro conjI)
qed

text \<open>
  The three statements of the example over the documents 1, 2, 3: the middle statement
  is not a document.  The command without \<open>ordered\<close> stops there: one document is
  deleted and document 3 stays.  The command with \<open>ordered: false\<close> goes on: two documents
  are deleted.  Both reply one error, under index 1.  The unordered command whose first
  statement matches a document without \<open>_id\<close> panics.
\<close>

theorem delete_ordered_unordered_witness:
  "delete_params delete_cmd = Inr (three_deletes, True) \<and>
   delete_params delete_cmd_unordered = Inr (three_deletes, False) \<and>
   MsgDelete H0 (Inr delete_cmd) three_docs =
     (Return (Inr [[(''writeErrors'',
                     VArray [VDocument [(''index'', VInt32 1), (''code'', VInt32 14),
                                        (''errmsg'', VString ''unexpected type'')]]),
                    (''n'', VInt32 1)]]),
      [[(''_id'', VString ''2'')], [(''_id'', VString ''3'')]]) \<and>
   MsgDelete H0 (Inr delete_cmd_unordered) three_docs =
     (Return (Inr [[(''writeErrors'',
                     VArray [VDocument [(''index'', VInt32 1), (''code'', VInt32 14),
                                        (''errmsg'', VString ''unexpected type'')]]),
                    (''n'', VInt32 2)]]),
      [[(''_id'', VString ''2'')]]) \<and>
   fst (MsgDelete H0 (Inr delete_cmd_all) no_id_docs) = Panic \<and>
   delete_loop H0 delete_cmd (take (Suc 1) three_deletes @ [VNull]) True 0 run0 =
     delete_loop H0 delete_cmd three_deletes True 0 run0 \<and>
   delete_loop H0 delete_cmd_unordered three_deletes False 0 run0 =
     (Return (), \<lparr>deleted = 2,
                  delErrors = [(CommandError ErrTypeMismatch ''unexpected type'', 1)],
                  database = [[(''_id'', VString ''2'')]]\<rparr>)"
proof -
  let ?err = "CommandError ErrTypeMismatch ''unexpected type''"
  let ?two = "[VDocument [], VDocument []]"
  have len: "length three_deletes = 3"
    by code_simp
  have k: "1 < length three_deletes"
    by (simp add: len)

  txt \<open>The command without the field.\<close>
  have p1: "delete_params delete_cmd = Inr (three_deletes, True)"
    by code_simp
  have f1: "doc_Get delete_cmd ''ordered'' \<noteq> Some (VBool False)"
    by code_simp
  have a0: "statement_result H0 delete_cmd three_deletes 0 (initial_run three_docs) = Return None"
    by code_simp
  have a1: "statement_result H0 delete_cmd three_deletes 1 (initial_run three_docs) =
      Return (Some ?err)"
    by code_simp
  have before1: "\<forall>j<1. statement_result H0 delete_cmd three_deletes j (initial_run three_docs) =
      Return None"
    using a0 by simp
  have b0: "statement_result H0 delete_cmd three_deletes 0 run0 = Return None"
    by code_simp
  have b1: "statement_result H0 delete_cmd three_deletes 1 run0 = Return (Some ?err)"
    by code_simp
  have before1': "\<forall>j<1. statement_result H0 delete_cmd three_deletes j run0 = Return None"
    using b0 by simp
  have e1: "send_reply H0
      (Return (), after_statements H0 delete_cmd three_deletes (Suc 1) (initial_run three_docs)) =
      (Return (Inr [[(''writeErrors'',
                      VArray [VDocument [(''index'', VInt32 1), (''code'', VInt32 14),
                                         (''errmsg'', VString ''unexpected type'')]]),
                     (''n'', VInt32 1)]]),
       [[(''_id'', VString ''2'')], [(''_id'', VString ''3'')]])"
    by code_simp
  note inst1 = delete_ordered_unordered
    [where document = delete_cmd and deletes = three_deletes and ordered = True and H = H0
       and s = three_docs and k = 1 and err = ?err and st = run0 and p = 0]
  have m1: "MsgDelete H0 (Inr delete_cmd) three_docs =
      send_reply H0
        (Return (), after_statements H0 delete_cmd three_deletes (Suc 1) (initial_run three_docs))"
    using inst1 p1 f1 k before1 a1 by blast
  have i1: "\<forall>later. delete_loop H0 delete_cmd (take (Suc 1) three_deletes @ later) True 0 run0 =
      delete_loop H0 delete_cmd three_deletes True 0 run0"
    using inst1 k before1' b1 by blast

  txt \<open>The command with \<open>ordered: false\<close>.\<close>
  have p2: "delete_params delete_cmd_unordered = Inr (three_deletes, False)"
    by code_simp
  have f2: "doc_Get delete_cmd_unordered ''ordered'' = Some (VBool False)"
    by code_simp
  have c0: "statement_result H0 delete_cmd_unordered three_deletes 0 (initial_run three_docs) =
      Return None"
    by code_simp
  have c1: "statement_result H0 delete_cmd_unordered three_deletes (Suc 0) (initial_run three_docs) =
      Return (Some ?err)"
    by code_simp
  have c2: "statement_result H0 delete_cmd_unordered three_deletes (Suc (Suc 0))
      (initial_run three_docs) = Return None"
    by code_simp
  have np: "\<forall>j<length three_deletes.
      statement_result H0 delete_cmd_unordered three_deletes j (initial_run three_docs) \<noteq> Panic"
    using c0 c1 c2 by (simp add: len less_Suc_eq numeral_3_eq_3)
  have d0: "statement_result H0 delete_cmd_unordered three_deletes 0 run0 = Return None"
    by code_simp
  have d1: "statement_result H0 delete_cmd_unordered three_deletes (Suc 0) run0 =
      Return (Some ?err)"
    by code_simp
  have d2: "statement_result H0 delete_cmd_unordered three_deletes (Suc (Suc 0)) run0 =
      Return None"
    by code_simp
  have np': "\<forall>j<length three_deletes.
      statement_result H0 delete_cmd_unordered three_deletes j run0 \<noteq> Panic"
    using d0 d1 d2 by (simp add: len less_Suc_eq numeral_3_eq_3)
  have e2: "send_reply H0
      (Return (), after_statements H0 delete_cmd_unordered three_deletes (length three_deletes)
         (initial_run three_docs)) =
      (Return (Inr [[(''writeErrors'',
                      VArray [VDocument [(''index'', VInt32 1), (''code'', VInt32 14),
                                         (''errmsg'', VString ''unexpected type'')]]),
                     (''n'', VInt32 2)]]),
       [[(''_id'', VString ''2'')]])"
    by code_simp
  have e3: "after_statements H0 delete_cmd_unordered three_deletes (length three_deletes) run0 =
      \<lparr>deleted = 2, delErrors = [(?err, 1)], database = [[(''_id'', VString ''2'')]]\<rparr>"
    by code_simp
  note inst2 = delete_ordered_unordered
    [where document = delete_cmd_unordered and deletes = three_deletes and ordered = False
       and H = H0 and s = three_docs and k = 1 and err = ?err and st = run0 and p = 0]
  have m2: "MsgDelete H0 (Inr delete_cmd_unordered) three_docs =
      send_reply H0
        (Return (), after_statements H0 delete_cmd_unordered three_deletes (length three_deletes)
           (initial_run three_docs))"
    using inst2 p2 f2 np by blast
  have u2: "delete_loop H0 delete_cmd_unordered three_deletes False 0 run0 =
      (Return (), after_statements H0 delete_cmd_unordered three_deletes (length three_deletes) run0)"
    using inst2 np' by blast

  txt \<open>The command that panics.\<close>
  have p3: "delete_params delete_cmd_all = Inr (?two, False)"
    by code_simp
  have f3: "doc_Get delete_cmd_all ''ordered'' = Some (VBool False)"
    by code_simp
  have g0: "statement_result H0 delete_cmd_all ?two 0 (initial_run no_id_docs) = Panic"
    by code_simp
  have l3: "0 < length ?two"
    by simp
  have none3: "\<forall>j<0. statement_result H0 delete_cmd_all ?two j (initial_run no_id_docs) \<noteq> Panic"
    by simp
  note inst3 = delete_ordered_unordered
    [where document = delete_cmd_all and deletes = ?two and ordered = False and H = H0
       and s = no_id_docs and k = 0 and err = ?err and st = "initial_run no_id_docs" and p = 0]
  have m3: "fst (MsgDelete H0 (Inr delete_cmd_all) no_id_docs) = Panic"
    using inst3 p3 f3 l3 none3 g0 by blast

  have r1: "MsgDelete H0 (Inr delete_cmd) three_docs =
      (Return (Inr [[(''writeErrors'',
                      VArray [VDocument [(''index'', VInt32 1), (''code'', VInt32 14),
                                         (''errmsg'', VString ''unexpected type'')]]),
                     (''n'', VInt32 1)]]),
       [[(''_id'', VString ''2'')], [(''_id'', VString ''3'')]])"
    using m1 by (simp only: e1)
  have r2: "MsgDelete H0 (Inr delete_cmd_unordered) three_docs =
      (Return (Inr [[(''writeErrors'',
                      VArray [VDocument [(''index'', VInt32 1), (''code'', VInt32 14),
                                         (''errmsg'', VString ''unexpected type'')]]),
                     (''n'', VInt32 2)]]),
       [[(''_id'', VString ''2'')]])"
    using m2 by (simp only: e2)
  have r3: "delete_loop H0 delete_cmd (take (Suc 1) three_deletes @ [VNull]) True 0 run0 =
      delete_loop H0 delete_cmd three_deletes True 0 run0"
    using i1 by blast
  have r4: "delete_loop H0 delete_cmd_unordered three_deletes False 0 run0 =
      (Return (), \<lparr>deleted = 2, delErrors = [(?err, 1)],
                   database = [[(''_id'', VString ''2'')]]\<rparr>)"
    using u2 by (simp only: e3)
  show ?thesis
    using p1 p2 r1 r2 m3 r3 r4 by blast
qed

section \<open>Delete command: the reply\<close>

lemma replyDoc_ok:
  "delErrors st = [] \<Longrightarrow> replyDoc H st = [(''ok'', VDouble 1), (''n'', VInt32 (deleted st))]"
  by (simp add: replyDoc_def doc_Set_def doc_Has_def)

lemma replyDoc_errors:
  "delErrors st \<noteq> [] \<Longrightarrow>
     replyDoc H st =
       [(''writeErrors'',
         VArray (map (\<lambda>(e, i). VDocument [(''index'', VInt32 i),
                                           (''code'', VInt32 (error_code H e)),
                                           (''errmsg'', VString (error_msg H e))])
                   (delErrors st))),
        (''n'', VInt32 (deleted st))]"
  by (simp add: replyDoc_def doc_Set_def doc_Has_def WriteErrors_Document_def)

lemma replyDoc_n: "doc_Get (replyDoc H st) ''n'' = Some (VInt32 (deleted st))"
  by (cases "delErrors st = []") (simp_all add: replyDoc_ok replyDoc_errors doc_Get_def)

lemma MsgDelete_replies:
  "MsgDelete H msg s = (Return (Inr reply), s') \<longleftrightarrow>
     (\<exists>document deletes ordered st.
        msg = Inr document \<and> delete_params document = Inr (deletes, ordered) \<and>
        delete_loop H document deletes ordered 0 \<lparr>deleted = 0, delErrors = [], database = s\<rparr> =
          (Return (), st) \<and>
        SetSections H [replyDoc H st] = None \<and> reply = [replyDoc H st] \<and> s' = database st)"
  unfolding MsgDelete_def
  by (auto split: sum.splits prod.splits outcome.splits option.splits)

text \<open>
  Claim C2.  A delete command is answered with a reply exactly when its fields are read,
  no statement panics and the sections are accepted; the reply then is the one document
  built from the final state of the loop.  This document always holds \<open>n\<close>, the counter
  as an \<open>int32\<close>.  Without errors it is \<open>{ok: 1.0, n}\<close>.  With errors it is
  \<open>{writeErrors: [{index, code, errmsg}, ...], n}\<close>, one entry per recorded error, and has
  no \<open>ok\<close>.
\<close>

theorem MsgDelete_reply_document:
  "((MsgDelete H msg s = (Return (Inr reply), s')) =
      (\<exists>document deletes ordered st.
         msg = Inr document \<and> delete_params document = Inr (deletes, ordered) \<and>
         delete_loop H document deletes ordered 0 \<lparr>deleted = 0, delErrors = [], database = s\<rparr> =
           (Return (), st) \<and>
         SetSections H [replyDoc H st] = None \<and> reply = [replyDoc H st] \<and> s' = database st)) \<and>
   doc_Get (replyDoc H st) ''n'' = Some (VInt32 (deleted st)) \<and>
   (delErrors st = [] \<longrightarrow>
      replyDoc H st = [(''ok'', VDouble 1), (''n'', VInt32 (deleted st))] \<and>
      doc_Get (replyDoc H st) ''ok'' = Some (VDouble 1) \<and>
      \<not> doc_Has (replyDoc H st) ''writeErrors'') \<and>
   (delErrors st \<noteq> [] \<longrightarrow>
      replyDoc H st =
        [(''writeErrors'',
          VArray (map (\<lambda>(e, i). VDocument [(''index'', VInt32 i),
                                            (''code'', VInt32 (error_code H e)),
                                            (''errmsg'', VString (error_msg H e))])
                    (delErrors st))),
         (''n'', VInt32 (deleted st))] \<and>
      \<not> doc_Has (replyDoc H st) ''ok'')"
proof (intro conjI impI)
  show "(MsgDelete H msg s = (Return (Inr reply), s')) =
      (\<exists>document deletes ordered st.
         msg = Inr document \<and> delete_params document = Inr (deletes, ordered) \<and>
         delete_loop H document deletes ordered 0 \<lparr>deleted = 0, delErrors = [], database = s\<rparr> =
           (Return (), st) \<and>
         SetSections H [replyDoc H st] = None \<and> reply = [replyDoc H st] \<and> s' = database st)"
    by (rule MsgDelete_replies)
  show "doc_Get (replyDoc H st) ''n'' = Some (VInt32 (deleted st))"
    by (rule replyDoc_n)
next
  assume e: "delErrors st = []"
  show "replyDoc H st = [(''ok'', VDouble 1), (''n'', VInt32 (deleted st))]"
    using e by (rule replyDoc_ok)
  show "doc_Get (replyDoc H st) ''ok'' = Some (VDouble 1)"
    using e by (simp add: replyDoc_ok doc_Get_def)
  show "\<not> doc_Has (replyDoc H st) ''writeErrors''"
    using e by (simp add: replyDoc_ok doc_Has_def)
next
  assume e: "delErrors st \<noteq> []"
  show "replyDoc H st =
        [(''writeErrors'',
          VArray (map (\<lambda>(e, i). VDocument [(''index'', VInt32 i),
                                            (''code'', VInt32 (error_code H e)),
                                            (''errmsg'', VString (error_msg H e))])
                    (delErrors st))),
         (''n'', VInt32 (deleted st))]"
    using e by (rule replyDoc_errors)
  show "\<not> doc_Has (replyDoc H st) ''ok''"
    using e by (simp add: replyDoc_errors doc_Has_def)
qed

text \<open>
  The two-statement command is answered \<open>{ok: 1.0, n: 1}\<close>; the three-statement command
  with the failing middle statement is answered with one entry of \<open>writeErrors\<close>, index 1,
  and \<open>n: 1\<close>.
\<close>

theorem MsgDelete_reply_document_witness:
  "MsgDelete H0 (Inr delete_cmd_ok) three_docs =
     (Return (Inr [[(''ok'', VDouble 1), (''n'', VInt32 1)]]),
      [[(''_id'', VString ''2'')], [(''_id'', VString ''3'')]]) \<and>
   MsgDelete H0 (Inr delete_cmd) three_docs =
     (Return (Inr [[(''writeErrors'',
                     VArray [VDocument [(''index'', VInt32 1), (''code'', VInt32 14),
                                        (''errmsg'', VString ''unexpected type'')]]),
                    (''n'', VInt32 1)]]),
      [[(''_id'', VString ''2'')], [(''_id'', VString ''3'')]])"
proof -
  let ?ok = "\<lparr>deleted = 1, delErrors = [],
              database = [[(''_id'', VString ''2'')], [(''_id'', VString ''3'')]]\<rparr>"
  let ?bad = "\<lparr>deleted = 1,
               delErrors = [(CommandError ErrTypeMismatch ''unexpected type'', 1)],
               database = [[(''_id'', VString ''2'')], [(''_id'', VString ''3'')]]\<rparr>"
  have m1: "MsgDelete H0 (Inr delete_cmd_ok) three_docs = (Return (Inr [replyDoc H0 ?ok]), database ?ok)"
    by code_simp
  have m2: "MsgDelete H0 (Inr delete_cmd) three_docs = (Return (Inr [replyDoc H0 ?bad]), database ?bad)"
    by code_simp
  have c: "error_code H0 (CommandError ErrTypeMismatch ''unexpected type'') = 14"
    "error_msg H0 (CommandError ErrTypeMismatch ''unexpected type'') = ''unexpected type''"
    by (simp_all add: H0_def)
  have e1: "delErrors ?ok = []" and e2: "delErrors ?bad \<noteq> []"
    by simp_all
  have d1: "replyDoc H0 ?ok = [(''ok'', VDouble 1), (''n'', VInt32 (deleted ?ok))]"
    using MsgDelete_reply_document [of H0 "Inr delete_cmd_ok" three_docs "[replyDoc H0 ?ok]" "database ?ok" ?ok] e1
    by blast
  have d2: "replyDoc H0 ?bad =
        [(''writeErrors'',
          VArray (map (\<lambda>(e, i). VDocument [(''index'', VInt32 i),
                                            (''code'', VInt32 (error_code H0 e)),
                                            (''errmsg'', VString (error_msg H0 e))])
                    (delErrors ?bad))),
         (''n'', VInt32 (deleted ?bad))]"
    using MsgDelete_reply_document [of H0 "Inr delete_cmd" three_docs "[replyDoc H0 ?bad]" "database ?bad" ?bad] e2
    by blast
  show ?thesis
    unfolding m1 m2 d1 d2 by (simp add: c)
qed

section \<open>Delete command: the count\<close>

lemma delete_ids_length: "delete_ids H docs = Return ids \<Longrightarrow> length ids = length docs"
  by (induction docs arbitrary: ids) (auto split: option.splits sum.splits outcome.splits)

lemma delete_result:
  "delete H fp docs s = (Return (Inr res), s') \<Longrightarrow> res = length docs"
  unfolding delete_def
  by (auto simp: Let_def delete_ids_length split: outcome.splits prod.splits sum.splits)

text \<open>
  Claim C10.  \<open>delete\<close> returns the number of documents it was given, the length of the
  list of \<open>_id\<close> filters, whatever the driver responds (\<open>r\<close>), as long as the driver
  reports no error; and a statement that returns no error adds the number of filtered and
  limited documents, converted to \<open>int32\<close>, to the counter.
\<close>

theorem delete_counts_submitted:
  "(delete H fp docs s = (Return (Inr res), s') \<longrightarrow> res = length docs) \<and>
   (delete_ids H docs = Return ids \<and>
    Driver_Delete H (DB fp) (Collection fp)
      (case ids of [] \<Rightarrow> FilterAll | [x] \<Rightarrow> FilterOne x | _ \<Rightarrow> FilterOr ids) s = (Inr r, s') \<longrightarrow>
      delete H fp docs s = (Return (Inr (length docs)), s')) \<and>
   (processQuery_docs H document deletes i (database st) = (Return (Inr (fp, resDocs)), s1) \<and>
    processQuery H document deletes i st = (Return None, st') \<longrightarrow>
      deleted st' = deleted st + of_nat (length resDocs))"
proof (intro conjI impI)
  assume "delete H fp docs s = (Return (Inr res), s')"
  then show "res = length docs" by (rule delete_result)
next
  assume "delete_ids H docs = Return ids \<and>
    Driver_Delete H (DB fp) (Collection fp)
      (case ids of [] \<Rightarrow> FilterAll | [x] \<Rightarrow> FilterOne x | _ \<Rightarrow> FilterOr ids) s = (Inr r, s')"
  then show "delete H fp docs s = (Return (Inr (length docs)), s')"
    unfolding delete_def by (auto simp: Let_def delete_ids_length)
next
  assume a: "processQuery_docs H document deletes i (database st) = (Return (Inr (fp, resDocs)), s1) \<and>
    processQuery H document deletes i st = (Return None, st')"
  show "deleted st' = deleted st + of_nat (length resDocs)"
  proof (cases "resDocs = []")
    case True
    with a show ?thesis by (auto simp: processQuery_def)
  next
    case False
    with a show ?thesis
      by (auto simp: processQuery_def dest: delete_result
               split: prod.splits outcome.splits sum.splits)
  qed
qed

text \<open>
  Behind a driver that removes nothing and reports 0, the first statement of the example
  still counts the one document it submitted.
\<close>

theorem delete_counts_submitted_witness:
  "processQuery_docs H_idle delete_cmd three_deletes 0 (database run0) =
     (Return (Inr (\<lparr>DB = ''acme'', Collection = ''users''\<rparr>, [[(''_id'', VString ''1'')]])), three_docs) \<and>
   processQuery H_idle delete_cmd three_deletes 0 run0 =
     (Return None, \<lparr>deleted = 1, delErrors = [], database = three_docs\<rparr>) \<and>
   delete H_idle \<lparr>DB = ''acme'', Collection = ''users''\<rparr> [[(''_id'', VString ''1'')]] three_docs =
     (Return (Inr 1), three_docs) \<and>
   deleted \<lparr>deleted = 1, delErrors = [], database = three_docs\<rparr> = deleted run0 + of_nat (length [[(''_id'', VString ''1'')]])"
proof -
  let ?fp = "\<lparr>DB = ''acme'', Collection = ''users''\<rparr>"
  let ?docs = "[[(''_id'', VString ''1'')]]"
  let ?st' = "\<lparr>deleted = 1, delErrors = [], database = three_docs\<rparr>"
  have d: "processQuery_docs H_idle delete_cmd three_deletes 0 (database run0) =
      (Return (Inr (?fp, ?docs)), three_docs)"
    by code_simp
  have p: "processQuery H_idle delete_cmd three_deletes 0 run0 = (Return None, ?st')"
    by code_simp
  have ids: "delete_ids H_idle ?docs = Return [IdEq ''1'']"
    by code_simp
  have drv: "Driver_Delete H_idle (DB ?fp) (Collection ?fp)
      (case [IdEq ''1''] of [] \<Rightarrow> FilterAll | [x] \<Rightarrow> FilterOne x | _ \<Rightarrow> FilterOr [IdEq ''1'']) three_docs =
      (Inr 0, three_docs)"
    by (simp add: H_idle_def)
  note inst = delete_counts_submitted [of H_idle ?fp ?docs three_docs 1 three_docs "[IdEq ''1'']" 0
      delete_cmd three_deletes 0 run0 ?docs three_docs ?st']
  have c2: "delete H_idle ?fp ?docs three_docs = (Return (Inr (length ?docs)), three_docs)"
    using inst ids drv by blast
  have c3: "deleted ?st' = deleted run0 + of_nat (length ?docs)"
    using inst d p by blast
  show ?thesis
    using d p c2 c3 by simp
qed

section \<open>The limit\<close>

lemma abs_sint_minus: "\<bar>sint (- w :: 64 word)\<bar> = \<bar>sint w\<bar>"
proof (cases "sint w = - (2 ^ 63)")
  case True
  have "sint (- w) = signed_take_bit 63 (- sint w)"
    by (simp add: sint_word_ariths)
  also have "\<dots> = signed_take_bit 63 (2 ^ 63 :: int)"
    using True by simp
  also have "\<dots> = - (2 ^ 63)"
    by (simp add: signed_take_bit_eq_take_bit_minus)
  finally show ?thesis using True by simp
next
  case False
  have "- (2 ^ 63) \<le> sint w" "sint w < 2 ^ 63"
    using sint_range_size [of w] by (simp_all add: word_size)
  with False have r: "- (2 ^ 63) \<le> - sint w" "- sint w < 2 ^ 63"
    by simp_all
  have "sint (- w) = signed_take_bit 63 (- sint w)"
    by (simp add: sint_word_ariths)
  also have "\<dots> = - sint w"
    using r by (simp add: signed_take_bit_int_eq_self)
  finally show ?thesis by simp
qed

text \<open>
  Claim C7.  On the limit function as section 4.3 describes it: a limit of 0 leaves the
  list as it is; a limit of 1 keeps at most one document; a positive limit keeps the
  first \<open>limit\<close> documents, so at most \<open>limit\<close>; a negative limit keeps what its absolute
  value keeps.
\<close>

theorem LimitDocuments_spec_signs:
  "LimitDocuments_spec docs 0 = Inr docs \<and>
   LimitDocuments_spec docs 1 = Inr (take 1 docs) \<and>
   length (take 1 docs) \<le> 1 \<and>
   (0 < sint limit \<longrightarrow>
      LimitDocuments_spec docs limit = Inr (take (nat (sint limit)) docs) \<and>
      int (length (take (nat (sint limit)) docs)) \<le> sint limit) \<and>
   (sint limit < 0 \<longrightarrow>
      LimitDocuments_spec docs limit = Inr (take (nat \<bar>sint limit\<bar>) docs) \<and>
      LimitDocuments_spec docs limit = LimitDocuments_spec docs (- limit))"
proof (intro conjI impI)
  show "LimitDocuments_spec docs 0 = Inr docs"
    by (simp add: LimitDocuments_spec_def)
  show "LimitDocuments_spec docs 1 = Inr (take 1 docs)"
    by (simp add: LimitDocuments_spec_def)
  show "length (take 1 docs) \<le> 1"
    by simp
next
  assume pos: "0 < sint limit"
  then have "limit \<noteq> 0" by auto
  with pos show "LimitDocuments_spec docs limit = Inr (take (nat (sint limit)) docs)"
    by (simp add: LimitDocuments_spec_def)
  from pos show "int (length (take (nat (sint limit)) docs)) \<le> sint limit"
    by simp
next
  assume neg: "sint limit < 0"
  then have nz: "limit \<noteq> 0" by auto
  then have nz': "- limit \<noteq> 0" by simp
  from nz show "LimitDocuments_spec docs limit = Inr (take (nat \<bar>sint limit\<bar>) docs)"
    by (simp add: LimitDocuments_spec_def)
  from nz nz' show "LimitDocuments_spec docs limit = LimitDocuments_spec docs (- limit)"
    by (simp add: LimitDocuments_spec_def abs_sint_minus)
qed

theorem LimitDocuments_spec_signs_witness:
  "LimitDocuments_spec three_docs 2 = Inr [[(''_id'', VString ''1'')], [(''_id'', VString ''2'')]] \<and>
   LimitDocuments_spec three_docs (- 2) = LimitDocuments_spec three_docs 2"
proof -
  have pos: "0 < sint (2 :: 64 word)" and neg: "sint (- 2 :: 64 word) < 0"
    by simp_all
  have a: "LimitDocuments_spec three_docs 2 = Inr (take (nat (sint (2 :: 64 word))) three_docs)"
    using LimitDocuments_spec_signs [of three_docs 2] pos by blast
  have b: "LimitDocuments_spec three_docs (- 2) = LimitDocuments_spec three_docs (- (- 2))"
    using LimitDocuments_spec_signs [of three_docs "- 2"] neg by blast
  have t2: "take 2 three_docs = [[(''_id'', VString ''1'')], [(''_id'', VString ''2'')]]"
    by (simp add: three_docs_def)
  show ?thesis
    using a b by (simp add: t2)
qed

section \<open>The cursor\<close>

text \<open>
  Claim C6.  On the cursor as section 4.3 describes it: over a table that does not exist,
  the first \<open>next\<close> is false and latches no error, the batch is empty before and after
  it, and a \<open>find\<close> replies \<open>{ok: 1.0, n: 0}\<close> with no documents.
\<close>

theorem cursor_no_table:
  "fst (cursor_next (new_cursor cap None)) = False \<and>
   latched (snd (cursor_next (new_cursor cap None))) = None \<and>
   cursor_batch (new_cursor cap None) = Inr [] \<and>
   cursor_batch (snd (cursor_next (new_cursor cap None))) = Inr [] \<and>
   drain (new_cursor cap None) [] = Inr [] \<and>
   find cap None = Inr ([(''ok'', VDouble 1), (''n'', VInt32 0)], [])"
  by (simp add: find_def new_cursor_def cursor_next_def cursor_batch_def)

theorem cursor_no_table_witness:
  "fst (cursor_next (new_cursor 32 None)) = False \<and>
   cursor_batch (snd (cursor_next (new_cursor 32 None))) = Inr [] \<and>
   find 32 None = Inr ([(''ok'', VDouble 1), (''n'', VInt32 0)], [])"
  using cursor_no_table [of 32] by blast

section \<open>Collection names\<close>

lemma match_rep_empty:
  "[] \<in> set (match_rep cs m n s) \<longleftrightarrow>
     m \<le> length s \<and> length s \<le> n \<and> (\<forall>c \<in> set s. in_bracket cs c)"
proof (induction n arbitrary: m s)
  case 0
  then show ?case by auto
next
  case (Suc n)
  show ?case
  proof (cases s)
    case Nil
    then show ?thesis by auto
  next
    case (Cons c t)
    then show ?thesis using Suc.IH [of "m - 1" t] by auto
  qed
qed

lemma concat_singletons: "concat (map (\<lambda>x. [x]) xs) = xs"
  by (induction xs) auto

lemma match_seq_single: "match_seq [a] s = match_atom a s"
proof -
  have "match_seq [] = (\<lambda>x. [x])" by (rule ext) simp
  then show ?thesis by (simp add: concat_singletons)
qed

lemma MatchString_two:
  "MatchString [Atom c1 1 1, Atom c2 0 n] s \<longleftrightarrow>
     (s \<noteq> [] \<and> in_bracket c1 (hd s) \<and> length (tl s) \<le> n \<and> (\<forall>c \<in> set (tl s). in_bracket c2 c))"
proof (cases s)
  case Nil
  then show ?thesis by (simp add: MatchString_def)
next
  case (Cons c t)
  have one: "match_rep c1 (Suc 0) (Suc 0) (c # t) = (if in_bracket c1 c then [t] else [])"
    by simp
  have "match_seq [Atom c1 1 1, Atom c2 0 n] (c # t) =
          (if in_bracket c1 c then match_rep c2 0 n t else [])"
    using match_seq_single [of "Atom c2 0 n"] by (simp add: one del: match_rep.simps match_seq.simps(1))
  then show ?thesis
    unfolding MatchString_def Cons
    by (simp add: match_rep_empty del: match_rep.simps match_seq.simps)
qed

lemma collection_name_re:
  "MatchString validateCollectionNameRe s \<longleftrightarrow>
     (s \<noteq> [] \<and> length s \<le> 120 \<and> is_name_start (hd s) \<and> (\<forall>c \<in> set (tl s). is_name_char c))"
  unfolding validateCollectionNameRe_def MatchString_two
  by (cases s) (auto simp: in_bracket_def is_name_start_def is_name_char_def)

lemma map_of_replace:
  "k \<in> set (map fst d) \<Longrightarrow>
     map_of (map (\<lambda>(k', v'). if k' = k then (k', v) else (k', v')) d) k = Some v"
  by (induction d) auto

lemma doc_Set_Get: "doc_Get (doc_Set d k v) k = Some v"
proof (cases "doc_Has d k")
  case True
  then show ?thesis
    unfolding doc_Get_def doc_Set_def doc_Has_def by (simp add: map_of_replace)
next
  case False
  then have "map_of d k = None"
    unfolding doc_Has_def by (simp add: map_of_eq_None_iff)
  with False show ?thesis
    unfolding doc_Get_def doc_Set_def by (simp add: map_add_def)
qed

text \<open>
  Claim C4.  \<open>CreateCollection\<close> fails with \<open>ErrInvalidTableName\<close> exactly when the name
  does not match the regular expression or begins with the reserved prefix, whatever the
  database name and the state of the backend, and then leaves the backend as it was.
  The regular expression matches the non-empty strings of at most 120 bytes that start
  with a letter or underscore and go on with letters, digits and underscores.
\<close>

theorem collection_name_validation:
  "(fails_with (fst (CreateCollection E db coll q)) ErrInvalidTableName =
      (\<not> MatchString validateCollectionNameRe coll \<or> HasPrefix coll (reservedPrefix E))) \<and>
   (fails_with (fst (CreateCollection E db coll q)) ErrInvalidTableName \<longrightarrow>
      CreateCollection E db coll q = (Return (Some ErrInvalidTableName), q)) \<and>
   (MatchString validateCollectionNameRe coll =
      (coll \<noteq> [] \<and> length coll \<le> 120 \<and> is_name_start (hd coll) \<and>
       (\<forall>c \<in> set (tl coll). is_name_char c)))"
proof (intro conjI impI)
  show iff: "fails_with (fst (CreateCollection E db coll q)) ErrInvalidTableName =
      (\<not> MatchString validateCollectionNameRe coll \<or> HasPrefix coll (reservedPrefix E))"
    unfolding CreateCollection_def fails_with_def
    by (simp add: Let_def split: sum.split option.split val.split prod.split failure.split)
  show "MatchString validateCollectionNameRe coll =
      (coll \<noteq> [] \<and> length coll \<le> 120 \<and> is_name_start (hd coll) \<and>
       (\<forall>c \<in> set (tl coll). is_name_char c))"
    by (rule collection_name_re)
  assume "fails_with (fst (CreateCollection E db coll q)) ErrInvalidTableName"
  with iff have "\<not> MatchString validateCollectionNameRe coll \<or> HasPrefix coll (reservedPrefix E)"
    by simp
  then show "CreateCollection E db coll q = (Return (Some ErrInvalidTableName), q)"
    unfolding CreateCollection_def by auto
qed

text \<open>
  \<open>1bad\<close> starts with a digit and \<open>_ferretdb_x\<close> with the reserved prefix of the example;
  \<open>users\<close> passes.
\<close>

theorem collection_name_validation_witness:
  "CreateCollection E0 ''acme'' ''1bad'' q_fresh = (Return (Some ErrInvalidTableName), q_fresh) \<and>
   CreateCollection E0 ''acme'' ''_ferretdb_x'' q_fresh = (Return (Some ErrInvalidTableName), q_fresh) \<and>
   \<not> fails_with (fst (CreateCollection E0 ''acme'' ''users'' q_fresh)) ErrInvalidTableName"
proof -
  have bad: "\<not> MatchString validateCollectionNameRe ''1bad''"
    using collection_name_validation [of E0 "''acme''" "''1bad''" q_fresh]
    by (simp add: is_name_start_def)
  have users: "MatchString validateCollectionNameRe ''users''"
    using collection_name_validation [of E0 "''acme''" "''users''" q_fresh]
    by (simp add: is_name_start_def is_name_char_def)
  have res: "MatchString validateCollectionNameRe ''_ferretdb_x''"
    using collection_name_validation [of E0 "''acme''" "''_ferretdb_x''" q_fresh]
    by (simp add: is_name_start_def is_name_char_def)
  have pre: "HasPrefix ''_ferretdb_x'' (reservedPrefix E0)" "\<not> HasPrefix ''users'' (reservedPrefix E0)"
    by (simp_all add: HasPrefix_def E0_def)
  show ?thesis
    using collection_name_validation [of E0 "''acme''" "''1bad''" q_fresh]
      collection_name_validation [of E0 "''acme''" "''_ferretdb_x''" q_fresh]
      collection_name_validation [of E0 "''acme''" "''users''" q_fresh]
      bad users pre
    by blast
qed

section \<open>Creating a collection\<close>

text \<open>
  Claim C3, as the code has it.  \<open>CreateCollection\<close> fails with \<open>ErrAlreadyExist\<close> exactly
  in two cases, both for a valid name in an existing schema: the computed table is among
  the tables of the schema, or the name is not yet mapped by the settings, the settings
  are written, and \<open>CREATE TABLE\<close> reports unique-violation, duplicate-object or
  duplicate-table.  When the call succeeds and the settings did not map the name before,
  the settings with \<open>collections[coll] = table\<close> were written first and the table was
  created next, on the state the write left.
\<close>

theorem CreateCollection_AlreadyExist_cases:
  "(fails_with (fst (CreateCollection E db coll q)) ErrAlreadyExist =
      (MatchString validateCollectionNameRe coll \<and> \<not> HasPrefix coll (reservedPrefix E) \<and>
       schemaExists E db q = Inr True \<and>
       (\<exists>ts. tables E db q = Inr ts \<and>
          (formatCollectionName E coll \<in> set ts \<or>
           (\<exists>settings colls q1 code q2.
              getSettingsTable E db q = Inr settings \<and>
              doc_Get settings ''collections'' = Some (VDocument colls) \<and>
              \<not> doc_Has colls coll \<and>
              updateSettingsTable E db
                (doc_Set settings ''collections''
                   (VDocument (doc_Set colls coll (VString (formatCollectionName E coll))))) q
                = (None, q1) \<and>
              Exec E (create_table_sql E db (formatCollectionName E coll)) q1
                = (Some (PgError code), q2) \<and>
              (code = UniqueViolation \<or> code = DuplicateObject \<or> code = DuplicateTable)))))) \<and>
   (fst (CreateCollection E db coll q) = Return None \<and>
    getSettingsTable E db q = Inr settings \<and>
    doc_Get settings ''collections'' = Some (VDocument colls) \<and>
    \<not> doc_Has colls coll \<longrightarrow>
      (\<exists>q1. updateSettingsTable E db
               (doc_Set settings ''collections''
                  (VDocument (doc_Set colls coll (VString (formatCollectionName E coll))))) q
               = (None, q1) \<and>
            Exec E (create_table_sql E db (formatCollectionName E coll)) q1
               = (None, snd (CreateCollection E db coll q))) \<and>
      doc_Get (doc_Set colls coll (VString (formatCollectionName E coll))) coll =
        Some (VString (formatCollectionName E coll)))"
proof (intro conjI impI)
  show "fails_with (fst (CreateCollection E db coll q)) ErrAlreadyExist =
      (MatchString validateCollectionNameRe coll \<and> \<not> HasPrefix coll (reservedPrefix E) \<and>
       schemaExists E db q = Inr True \<and>
       (\<exists>ts. tables E db q = Inr ts \<and>
          (formatCollectionName E coll \<in> set ts \<or>
           (\<exists>settings colls q1 code q2.
              getSettingsTable E db q = Inr settings \<and>
              doc_Get settings ''collections'' = Some (VDocument colls) \<and>
              \<not> doc_Has colls coll \<and>
              updateSettingsTable E db
                (doc_Set settings ''collections''
                   (VDocument (doc_Set colls coll (VString (formatCollectionName E coll))))) q
                = (None, q1) \<and>
              Exec E (create_table_sql E db (formatCollectionName E coll)) q1
                = (Some (PgError code), q2) \<and>
              (code = UniqueViolation \<or> code = DuplicateObject \<or> code = DuplicateTable)))))"
    unfolding CreateCollection_def fails_with_def
    by (auto simp: Let_def split: sum.splits option.splits val.splits prod.splits failure.splits)
next
  assume a: "fst (CreateCollection E db coll q) = Return None \<and>
    getSettingsTable E db q = Inr settings \<and>
    doc_Get settings ''collections'' = Some (VDocument colls) \<and>
    \<not> doc_Has colls coll"
  then show "\<exists>q1. updateSettingsTable E db
               (doc_Set settings ''collections''
                  (VDocument (doc_Set colls coll (VString (formatCollectionName E coll))))) q
               = (None, q1) \<and>
            Exec E (create_table_sql E db (formatCollectionName E coll)) q1
               = (None, snd (CreateCollection E db coll q))"
    unfolding CreateCollection_def
    by (auto simp: Let_def
             split: sum.splits option.splits val.splits prod.splits failure.splits if_splits)
  show "doc_Get (doc_Set colls coll (VString (formatCollectionName E coll))) coll =
        Some (VString (formatCollectionName E coll))"
    by (rule doc_Set_Get)
qed

text \<open>
  In the example the call fails with \<open>ErrAlreadyExist\<close> when the table is there and when
  \<open>CREATE TABLE\<close> reports a duplicate table; on the fresh schema it succeeds, and the
  backend has then seen the write of the settings and the one \<open>CREATE TABLE\<close>.
\<close>

theorem CreateCollection_AlreadyExist_cases_witness:
  "fails_with (fst (CreateCollection E0 ''acme'' ''users'' q_table)) ErrAlreadyExist \<and>
   fails_with (fst (CreateCollection E_race ''acme'' ''users'' q_fresh)) ErrAlreadyExist \<and>
   fst (CreateCollection E0 ''acme'' ''users'' q_fresh) = Return None \<and>
   Exec E0 (create_table_sql E0 ''acme'' ''users'')
     (q_fresh\<lparr>pg_settings :=
         (''acme'', [(''collections'', VDocument [(''users'', VString ''users'')])]) #
         pg_settings q_fresh\<rparr>) =
     (None, snd (CreateCollection E0 ''acme'' ''users'' q_fresh))"
proof -
  let ?settings = "[(''collections'', VDocument [])]"
  let ?settings' = "[(''collections'', VDocument [(''users'', VString ''users'')])]"
  let ?q1 = "q_fresh\<lparr>pg_settings := (''acme'', ?settings') # pg_settings q_fresh\<rparr>"
  have users: "MatchString validateCollectionNameRe ''users''"
    by (simp add: collection_name_re is_name_start_def is_name_char_def)
  have pre: "\<not> HasPrefix ''users'' (reservedPrefix E0)" "\<not> HasPrefix ''users'' (reservedPrefix E_race)"
    by (simp_all add: HasPrefix_def E0_def E_race_def)
  have fmt: "formatCollectionName E0 ''users'' = ''users''" "formatCollectionName E_race ''users'' = ''users''"
    by (simp_all add: E0_def E_race_def)
  have s1: "schemaExists E0 ''acme'' q_table = Inr True"
    and t1: "tables E0 ''acme'' q_table = Inr [''users'']"
    by (simp_all add: E0_def q_table_def)
  have c1: "fails_with (fst (CreateCollection E0 ''acme'' ''users'' q_table)) ErrAlreadyExist"
    using CreateCollection_AlreadyExist_cases [of E0 "''acme''" "''users''" q_table] users pre s1 t1 fmt
    by auto
  have s2: "schemaExists E_race ''acme'' q_fresh = Inr True"
    and t2: "tables E_race ''acme'' q_fresh = Inr []"
    and g2: "getSettingsTable E_race ''acme'' q_fresh = Inr ?settings"
    by (simp_all add: E0_def E_race_def q_fresh_def)
  have d: "doc_Get ?settings ''collections'' = Some (VDocument [])" "\<not> doc_Has [] ''users''"
    "doc_Set ?settings ''collections'' (VDocument (doc_Set [] ''users'' (VString ''users''))) = ?settings'"
    by (simp_all add: doc_Get_def doc_Has_def doc_Set_def)
  have u2: "updateSettingsTable E_race ''acme'' ?settings' q_fresh = (None, ?q1)"
    by (simp add: E0_def E_race_def)
  have x2: "Exec E_race (create_table_sql E_race ''acme'' ''users'') ?q1 =
      (Some (PgError DuplicateTable), ?q1)"
    by (simp add: E_race_def)
  have c2: "fails_with (fst (CreateCollection E_race ''acme'' ''users'' q_fresh)) ErrAlreadyExist"
    using CreateCollection_AlreadyExist_cases [of E_race "''acme''" "''users''" q_fresh]
      users pre s2 t2 g2 d u2 x2 fmt
    by simp
  have c3: "fst (CreateCollection E0 ''acme'' ''users'' q_fresh) = Return None"
    by code_simp
  have g3: "getSettingsTable E0 ''acme'' q_fresh = Inr ?settings"
    by (simp add: E0_def q_fresh_def)
  have u3: "updateSettingsTable E0 ''acme'' ?settings' q_fresh = (None, ?q1)"
    by (simp add: E0_def)
  from CreateCollection_AlreadyExist_cases [of E0 "''acme''" "''users''" q_fresh ?settings "[]"]
    c3 g3 d(1,2)
  obtain q1 where
    "updateSettingsTable E0 ''acme''
       (doc_Set ?settings ''collections''
          (VDocument (doc_Set [] ''users'' (VString (formatCollectionName E0 ''users''))))) q_fresh
       = (None, q1)"
    "Exec E0 (create_table_sql E0 ''acme'' (formatCollectionName E0 ''users'')) q1
       = (None, snd (CreateCollection E0 ''acme'' ''users'' q_fresh))"
    by blast
  then have c4: "Exec E0 (create_table_sql E0 ''acme'' ''users'') ?q1 =
      (None, snd (CreateCollection E0 ''acme'' ''users'' q_fresh))"
    using u3 by (simp add: fmt d(3))
  show ?thesis
    using c1 c2 c3 c4 by blast
qed

text \<open>
  Against claim C3 as it is written: the settings of the example map \<open>users\<close>, the schema
  has no table, and the call succeeds although it writes no settings and issues no
  \<open>CREATE TABLE\<close>: the backend is as before, and nothing was executed.
\<close>

theorem CreateCollection_success_without_create:
  "fst (CreateCollection E0 ''acme'' ''users'' q_stale) = Return None \<and>
   snd (CreateCollection E0 ''acme'' ''users'' q_stale) = q_stale \<and>
   pg_executed (snd (CreateCollection E0 ''acme'' ''users'' q_stale)) = [] \<and>
   tables E0 ''acme'' q_stale = Inr []"
  by code_simp

text \<open>
  Claim C9.  For a valid name in an existing schema: when the settings map the collection
  and the computed table is not among the tables of the schema, \<open>CreateCollection\<close>
  returns no error, not \<open>ErrAlreadyExist\<close>, and leaves the backend as it was: no
  \<open>CREATE TABLE\<close> is issued, and the entry of the settings still points to no table.
\<close>

theorem CreateCollection_entry_without_table:
  "MatchString validateCollectionNameRe coll \<and> \<not> HasPrefix coll (reservedPrefix E) \<and>
   schemaExists E db q = Inr True \<and>
   tables E db q = Inr ts \<and> formatCollectionName E coll \<notin> set ts \<and>
   getSettingsTable E db q = Inr settings \<and>
   doc_Get settings ''collections'' = Some (VDocument colls) \<and>
   doc_Has colls coll \<longrightarrow>
     CreateCollection E db coll q = (Return None, q) \<and>
     \<not> fails_with (fst (CreateCollection E db coll q)) ErrAlreadyExist \<and>
     getSettingsTable E db (snd (CreateCollection E db coll q)) = Inr settings \<and>
     tables E db (snd (CreateCollection E db coll q)) = Inr ts"
  unfolding CreateCollection_def fails_with_def by (simp add: Let_def)

theorem CreateCollection_entry_without_table_witness:
  "CreateCollection E0 ''acme'' ''accounts'' q_three = (Return None, q_three) \<and>
   pg_executed q_three = [] \<and> tables E0 ''acme'' q_three = Inr []"
proof -
  let ?colls = "[(''users'', VString ''users''), (''Orders'', VString ''orders''),
                 (''accounts'', VString ''accounts'')]"
  have n: "MatchString validateCollectionNameRe ''accounts''"
    by (simp add: collection_name_re is_name_start_def is_name_char_def)
  have pre: "\<not> HasPrefix ''accounts'' (reservedPrefix E0)"
    by (simp add: HasPrefix_def E0_def)
  have s: "schemaExists E0 ''acme'' q_three = Inr True"
    and t: "tables E0 ''acme'' q_three = Inr []"
    and g: "getSettingsTable E0 ''acme'' q_three = Inr [(''collections'', VDocument ?colls)]"
    and x: "pg_executed q_three = []"
    by (simp_all add: E0_def q_three_def)
  have d: "doc_Get [(''collections'', VDocument ?colls)] ''collections'' = Some (VDocument ?colls)"
    "doc_Has ?colls ''accounts''"
    by (simp_all add: doc_Get_def doc_Has_def)
  have "CreateCollection E0 ''acme'' ''accounts'' q_three = (Return None, q_three)"
    using CreateCollection_entry_without_table
      [of "''accounts''" E0 "''acme''" q_three "[]" "[(''collections'', VDocument ?colls)]" ?colls]
      n pre s t g d
    by simp
  then show ?thesis using x t by simp
qed

section \<open>Listing the collections\<close>

text \<open>
  Claim C5.  When the schema is absent, \<open>Collections\<close> fails with \<open>ErrSchemaNotExist\<close>.
  When it exists and the settings hold the document \<open>collections\<close>, the result is the list
  of its keys, in whatever order they are stored, put in ascending order of the strings:
  it is sorted, it has the same names as many times, and it is the only such list.
\<close>

theorem Collections_sorted_names:
  "(schemaExists E db q = Inr False \<longrightarrow> Collections E db q = Return (Inl ErrSchemaNotExist)) \<and>
   (schemaExists E db q = Inr True \<and> getSettingsTable E db q = Inr settings \<and>
    doc_Get settings ''collections'' = Some (VDocument colls) \<longrightarrow>
      (\<exists>names. Collections E db q = Return (Inr names) \<and> sorted names \<and>
         mset names = mset (doc_Keys colls) \<and>
         (\<forall>other. sorted other \<and> mset other = mset (doc_Keys colls) \<longrightarrow> other = names)))"
proof (intro conjI impI)
  assume "schemaExists E db q = Inr False"
  then show "Collections E db q = Return (Inl ErrSchemaNotExist)"
    unfolding Collections_def by simp
next
  assume a: "schemaExists E db q = Inr True \<and> getSettingsTable E db q = Inr settings \<and>
    doc_Get settings ''collections'' = Some (VDocument colls)"
  then have "Collections E db q = Return (Inr (sort (doc_Keys colls)))"
    unfolding Collections_def by simp
  moreover have "\<forall>other. sorted other \<and> mset other = mset (doc_Keys colls) \<longrightarrow>
      other = sort (doc_Keys colls)"
    using properties_for_sort by blast
  ultimately show "\<exists>names. Collections E db q = Return (Inr names) \<and> sorted names \<and>
         mset names = mset (doc_Keys colls) \<and>
         (\<forall>other. sorted other \<and> mset other = mset (doc_Keys colls) \<longrightarrow> other = names)"
    by simp
qed

text \<open>
  The settings of the example store \<open>users\<close>, \<open>Orders\<close>, \<open>accounts\<close> in this order; the
  capital letter comes first in the result.
\<close>

theorem Collections_sorted_names_witness:
  "Collections E0 ''acme'' q_three = Return (Inr [''Orders'', ''accounts'', ''users'']) \<and>
   Collections E0 ''nodb'' q_three = Return (Inl ErrSchemaNotExist)"
proof -
  let ?colls = "[(''users'', VString ''users''), (''Orders'', VString ''orders''),
                 (''accounts'', VString ''accounts'')]"
  have s: "schemaExists E0 ''acme'' q_three = Inr True"
    and g: "getSettingsTable E0 ''acme'' q_three = Inr [(''collections'', VDocument ?colls)]"
    and n: "schemaExists E0 ''nodb'' q_three = Inr False"
    by (simp_all add: E0_def q_three_def)
  have d: "doc_Get [(''collections'', VDocument ?colls)] ''collections'' = Some (VDocument ?colls)"
    by (simp add: doc_Get_def)
  have sorted3: "sorted [''Orders'', ''accounts'', ''users'']"
    by code_simp
  have m: "mset [''Orders'', ''accounts'', ''users''] = mset (doc_Keys ?colls)"
    by (simp add: doc_Keys_def)
  from Collections_sorted_names [of E0 "''acme''" q_three "[(''collections'', VDocument ?colls)]" ?colls]
    s g d
  obtain names where names: "Collections E0 ''acme'' q_three = Return (Inr names)"
    and uniq: "\<forall>other. sorted other \<and> mset other = mset (doc_Keys ?colls) \<longrightarrow> other = names"
    by blast
  from uniq sorted3 m have "[''Orders'', ''accounts'', ''users''] = names"
    by blast
  with names have a: "Collections E0 ''acme'' q_three = Return (Inr [''Orders'', ''accounts'', ''users''])"
    by simp
  have b: "Collections E0 ''nodb'' q_three = Return (Inl ErrSchemaNotExist)"
    using Collections_sorted_names [of E0 "''nodb''" q_three] n by blast
  show ?thesis using a b by blast
qed

end
